theory Spec2Isabelle
  imports Complex_Main "HOL-Library.Word" "HOL-Library.Sublist"
begin

section \<open>Python values\<close>

text \<open>
  The client of \<^verbatim>\<open>src/anaplan_sdk/_async_client.py\<close> handles Python \<^verbatim>\<open>bytes\<close>,
  \<^verbatim>\<open>str\<close>, unbounded \<^verbatim>\<open>int\<close> and JSON-decoded values. Bytes are lists of 8-bit words,
  a \<^verbatim>\<open>str\<close> is a HOL string whose characters stand for the code points below 256, an
  \<^verbatim>\<open>int\<close> is a HOL \<open>int\<close>.
\<close>

type_synonym byte = "8 word"
type_synonym bytes = "byte list"

datatype str_or_bytes = Str string | Bytes bytes

text \<open>
  What \<^verbatim>\<open>response.json()\<close> returns. A dict is an association list with the first
  binding of a key the current one; Python's \<^verbatim>\<open>None\<close> is \<open>JNull\<close>. Non-integer numbers
  do not occur in the payloads the client reads or writes and are left out.
\<close>

datatype json =
    JNull
  | JBool bool
  | JNum int
  | JStr string
  | JArr "json list"
  | JObj "(string \<times> json) list"

text \<open>
  An f-string is kept as the list of its literal parts and of the values it formats, in
  order: \<^verbatim>\<open>f"AnaplanAuthToken {tok}"\<close> is \<open>[Lit ''AnaplanAuthToken '', Fmt tok]\<close>.
\<close>

datatype piece = Lit string | Fmt json

type_synonym fstring = "piece list"

definition fmt_opt :: "string option \<Rightarrow> json" where
  "fmt_opt s = (case s of None \<Rightarrow> JNull | Some x \<Rightarrow> JStr x)"

text \<open>\<^verbatim>\<open>str(x)\<close> for an \<^verbatim>\<open>Optional[str]\<close>, as an f-string renders it.\<close>

definition str_opt :: "string option \<Rightarrow> string" where
  "str_opt s = (case s of None \<Rightarrow> ''None'' | Some x \<Rightarrow> x)"

text \<open>\<^verbatim>\<open>str.encode()\<close>: UTF-8, one byte below 128 and two bytes from 128 to 255.\<close>

definition encode_char :: "char \<Rightarrow> bytes" where
  "encode_char c =
     (let n = (of_char c :: nat)
      in if n < 128 then [of_nat n] else [of_nat (192 + n div 64), of_nat (128 + n mod 64)])"

definition encode :: "string \<Rightarrow> bytes" where
  "encode s = concat (map encode_char s)"

text \<open>Truthiness of the optional constructor arguments: \<^verbatim>\<open>None\<close> and empty values are falsy.\<close>

definition truthy_str :: "string option \<Rightarrow> bool" where
  "truthy_str s = (case s of None \<Rightarrow> False | Some x \<Rightarrow> x \<noteq> [])"

definition truthy_sb :: "str_or_bytes option \<Rightarrow> bool" where
  "truthy_sb v = (case v of None \<Rightarrow> False | Some (Str s) \<Rightarrow> s \<noteq> [] | Some (Bytes b) \<Rightarrow> b \<noteq> [])"

text \<open>Truthiness of a JSON-decoded value (\<^verbatim>\<open>not x\<close> is its negation).\<close>

definition truthy :: "json \<Rightarrow> bool" where
  "truthy v =
     (case v of
        JNull \<Rightarrow> False
      | JBool b \<Rightarrow> b
      | JNum n \<Rightarrow> n \<noteq> 0
      | JStr s \<Rightarrow> s \<noteq> []
      | JArr xs \<Rightarrow> xs \<noteq> []
      | JObj kvs \<Rightarrow> kvs \<noteq> [])"

section \<open>Exceptions\<close>

text \<open>
  The exceptions the client raises or lets through. \<open>HTTPStatusError code\<close> is what
  \<^verbatim>\<open>raise_for_status\<close> raises, \<open>HTTPError\<close> any other \<^verbatim>\<open>httpx.HTTPError\<close> (a timeout,
  a connection failure). \<^verbatim>\<open>raise X from error\<close> keeps the cause as the argument of
  \<open>X\<close>. \<open>RetryError\<close> is tenacity's, carrying the exception of the last attempt.
  The classes of \<^verbatim>\<open>_exceptions\<close> are taken as the spec's taxonomy has them: distinct
  kinds, none of them an \<^verbatim>\<open>HTTPError\<close> or an \<^verbatim>\<open>IOError\<close>.
\<close>

datatype exn =
    HTTPStatusError nat
  | HTTPError
  | InvalidCredentialsException exn
  | InvalidPrivateKeyException exn
  | InvalidIdentifierException exn
  | AnaplanActionError fstring
  | ReAuthException exn
  | RetryError exn
  | ValueError
  | TypeError
  | AttributeError
  | JSONDecodeError
  | OSError
  | OverflowError
  | InvalidKey
  | UnsupportedAlgorithm

section \<open>Slices and ranges\<close>

text \<open>
  \<^verbatim>\<open>xs[lo:hi]\<close> with step 1: negative bounds count from the end, and both bounds are
  clamped to the sequence.
\<close>

definition slice_bound :: "int \<Rightarrow> int \<Rightarrow> int" where
  "slice_bound n k = (if k < 0 then max 0 (k + n) else min k n)"

definition py_slice :: "'a list \<Rightarrow> int \<Rightarrow> int \<Rightarrow> 'a list" where
  "py_slice xs lo hi =
     (let n = int (length xs); l = slice_bound n lo; h = slice_bound n hi
      in take (nat (h - l)) (drop (nat l) xs))"

text \<open>
  \<^verbatim>\<open>range(start, stop, step)\<close>: a zero step raises \<^verbatim>\<open>ValueError\<close>; otherwise the
  values \<open>start + k * step\<close> before \<open>stop\<close>.
\<close>

definition py_range :: "int \<Rightarrow> int \<Rightarrow> int \<Rightarrow> exn + int list" where
  "py_range start stop step =
     (if step = 0 then Inl ValueError
      else if step > 0 then
        Inr (map (\<lambda>k. start + int k * step) [0 ..< nat ((stop - start + step - 1) div step)])
      else
        Inr (map (\<lambda>k. start + int k * step) [0 ..< nat ((start - stop - step - 1) div (- step))]))"

section \<open>Partitioning the content of an upload\<close>

text \<open>
  The list comprehension of \<^verbatim>\<open>upload_file\<close>:
  \<^verbatim>\<open>[content[i : i + self.upload_chunk_size]
   for i in range(0, len(content), self.upload_chunk_size)]\<close>
\<close>

definition chunks_of :: "int \<Rightarrow> bytes \<Rightarrow> exn + bytes list" where
  "chunks_of upload_chunk_size content =
     (case py_range 0 (int (length content)) upload_chunk_size of
        Inl e \<Rightarrow> Inl e
      | Inr starts \<Rightarrow> Inr (map (\<lambda>i. py_slice content i (i + upload_chunk_size)) starts))"

text \<open>The bytes \<open>[a, b)\<close> of a sequence, as the spec writes a chunk.\<close>

definition byte_range :: "'a list \<Rightarrow> nat \<Rightarrow> nat \<Rightarrow> 'a list" where
  "byte_range xs a b = take (b - a) (drop a xs)"

section \<open>The environment of the client\<close>

datatype http_method = GET | POST | PUT

datatype req_body = NoBody | JsonBody json | Content bytes

record request =
  req_method :: http_method
  req_url :: fstring
  req_headers :: "(string \<times> fstring) list"
  req_body :: req_body
  req_timeout :: int

text \<open>
  A response: its status code, its raw content, and what \<^verbatim>\<open>.json()\<close> gives for it
  (\<open>None\<close> when the content is no JSON document and \<^verbatim>\<open>.json()\<close> raises).
\<close>

record response =
  status_code :: nat
  resp_content :: bytes
  resp_json :: "json option"

text \<open>
  A call of \<^verbatim>\<open>self._client\<close> either yields a response or raises an
  \<^verbatim>\<open>httpx.HTTPError\<close> that is no \<^verbatim>\<open>HTTPStatusError\<close> (those come from
  \<^verbatim>\<open>raise_for_status\<close> alone).
\<close>

datatype http_outcome = Responds response | Fails

text \<open>
  What the client does to the outside world, in order: the requests it issues through
  \<^verbatim>\<open>self._client\<close> and its calls of the blocking \<^verbatim>\<open>time.sleep\<close>.
\<close>

datatype event = Request request | TimeSleep int

datatype padding = PKCS1v15 | PSS | OAEP

datatype hash_alg = SHA1 | SHA256 | SHA384 | SHA512

text \<open>A loaded private key, named by the PEM data and the password it was loaded from.\<close>

datatype rsa_key = RSAPrivateKey bytes "bytes option"

text \<open>
  What the \<^verbatim>\<open>cryptography\<close> package raises when it loads a key or signs. Its
  \<^verbatim>\<open>load_pem_private_key\<close> is documented to raise \<^verbatim>\<open>ValueError\<close> for data whose
  structure cannot be decoded or that cannot be decrypted (a wrong password),
  \<^verbatim>\<open>TypeError\<close> for a password given to an unencrypted key or missing for an encrypted
  one, and \<^verbatim>\<open>UnsupportedAlgorithm\<close> for a key type the backend does not support.
\<close>

datatype crypto_error =
    CryptoValueError
  | CryptoTypeError
  | CryptoUnsupportedAlgorithm
  | CryptoInvalidKey

fun raise_crypto :: "crypto_error \<Rightarrow> exn" where
  "raise_crypto CryptoValueError = ValueError"
| "raise_crypto CryptoTypeError = TypeError"
| "raise_crypto CryptoUnsupportedAlgorithm = UnsupportedAlgorithm"
| "raise_crypto CryptoInvalidKey = InvalidKey"

text \<open>
  What \<^verbatim>\<open>time.sleep\<close> raises for a delay that is not negative and that the platform
  cannot take: CPython converts the delay to nanoseconds in 64 bits and raises
  \<^verbatim>\<open>OverflowError\<close> beyond that (from 9223372037 seconds on), and the system call may
  refuse a smaller one with \<^verbatim>\<open>OSError\<close>.
\<close>

datatype sleep_failure = SleepOverflowError | SleepOSError

fun raise_sleep :: "sleep_failure \<Rightarrow> exn" where
  "raise_sleep SleepOverflowError = OverflowError"
| "raise_sleep SleepOSError = OSError"

text \<open>
  Everything outside the module is a parameter. \<open>server\<close> answers a request from the
  history of events up to and including it. \<open>determine_action_type\<close> is the helper of
  \<^verbatim>\<open>_models\<close>. \<open>b64encode\<close> is \<^verbatim>\<open>base64.b64encode(x).decode()\<close>, \<open>gzip_compress\<close> is
  \<^verbatim>\<open>gzip.compress\<close>, \<open>isfile\<close> is \<^verbatim>\<open>os.path.isfile\<close>, \<open>can_open\<close> tells whether
  \<^verbatim>\<open>open(path, "rb")\<close> succeeds (it raises \<^verbatim>\<open>OSError\<close> otherwise), \<open>entropy\<close> is the
  source \<^verbatim>\<open>os.urandom\<close> reads, \<open>pem_error\<close> is the exception
  \<^verbatim>\<open>serialization.load_pem_private_key\<close> raises on the data and password (\<open>None\<close> when
  it returns the key), \<open>sign_rsa\<close> is the key's \<^verbatim>\<open>sign\<close> method, and \<open>sleep_rejects\<close>
  tells which delays that are not negative \<^verbatim>\<open>time.sleep\<close> refuses, and how.
\<close>

record env =
  server :: "event list \<Rightarrow> http_outcome"
  determine_action_type :: "int \<Rightarrow> string"
  b64encode :: "bytes \<Rightarrow> string"
  gzip_compress :: "bytes \<Rightarrow> bytes"
  isfile :: "str_or_bytes \<Rightarrow> bool"
  can_open :: "string \<Rightarrow> bool"
  entropy :: "event list \<Rightarrow> nat \<Rightarrow> byte"
  pem_error :: "bytes \<Rightarrow> bytes option \<Rightarrow> crypto_error option"
  sign_rsa :: "rsa_key \<Rightarrow> bytes \<Rightarrow> padding \<Rightarrow> hash_alg \<Rightarrow> crypto_error + bytes"
  sleep_rejects :: "int \<Rightarrow> sleep_failure option"

section \<open>The client\<close>

text \<open>
  The fields of \<^verbatim>\<open>AsyncClient\<close>. \<open>history\<close> is not a field of the class: it records
  the events the instance has caused so far, oldest first.
\<close>

record client =
  workspace_id :: "string option"
  model_id :: "string option"
  user_email :: "string option"
  password :: "string option"
  certificate :: "str_or_bytes option"
  private_key :: "str_or_bytes option"
  private_key_password :: "str_or_bytes option"
  timeout :: int
  status_poll_delay :: int
  upload_chunk_size :: int
  auth_token :: json
  history :: "event list"

definition auth_url :: string where
  "auth_url = ''https://auth.anaplan.com/token/authenticate''"

definition base_url :: string where
  "base_url = ''https://api.anaplan.com/2/0/workspaces''"

text \<open>
  \<^verbatim>\<open>__init__\<close>. Its last statement,
  \<^verbatim>\<open>self._cert_auth() if certificate else self._basic_auth()\<close>, calls an
  \<^verbatim>\<open>async def\<close> without awaiting it: the call builds a coroutine object, runs none
  of its body, and the object is dropped. So the constructor issues no request and leaves
  the token as it has just set it.
\<close>

definition init ::
  "string option \<Rightarrow> string option \<Rightarrow> string option \<Rightarrow> string option \<Rightarrow>
   str_or_bytes option \<Rightarrow> str_or_bytes option \<Rightarrow> str_or_bytes option \<Rightarrow>
   int \<Rightarrow> int \<Rightarrow> int \<Rightarrow> exn + client" where
  "init workspace_id' model_id' user_email' password' certificate' private_key'
        private_key_password' timeout' status_poll_delay' upload_chunk_size' =
     (if \<not> ((truthy_str user_email' \<and> truthy_str password')
             \<or> (truthy_sb certificate' \<and> truthy_sb private_key'))
      then Inl ValueError
      else Inr \<lparr>workspace_id = workspace_id', model_id = model_id',
                user_email = user_email', password = password',
                certificate = certificate', private_key = private_key',
                private_key_password = private_key_password',
                timeout = timeout', status_poll_delay = status_poll_delay',
                upload_chunk_size = upload_chunk_size',
                auth_token = JStr [], history = []\<rparr>)"

text \<open>Issuing a request: it joins the history, and the server answers it.\<close>

definition send :: "env \<Rightarrow> request \<Rightarrow> client \<Rightarrow> http_outcome \<times> client" where
  "send E rq c = (let h = history c @ [Request rq] in (server E h, c\<lparr>history := h\<rparr>))"

text \<open>\<^verbatim>\<open>response.raise_for_status()\<close>: any status outside 2xx raises.\<close>

definition raise_for_status :: "response \<Rightarrow> exn option" where
  "raise_for_status r =
     (if 200 \<le> status_code r \<and> status_code r < 300 then None
      else Some (HTTPStatusError (status_code r)))"

text \<open>\<^verbatim>\<open>d.get(k)\<close>: \<^verbatim>\<open>None\<close> for a missing key, \<^verbatim>\<open>AttributeError\<close> when \<open>d\<close> is no dict.\<close>

definition py_get :: "json \<Rightarrow> string \<Rightarrow> exn + json" where
  "py_get v k =
     (case v of
        JObj kvs \<Rightarrow> Inr (case map_of kvs k of None \<Rightarrow> JNull | Some x \<Rightarrow> x)
      | _ \<Rightarrow> Inl AttributeError)"

text \<open>\<^verbatim>\<open>response.json().get("tokenInfo").get("tokenValue")\<close>\<close>

definition token_value :: "response \<Rightarrow> exn + json" where
  "token_value r =
     (case resp_json r of
        None \<Rightarrow> Inl JSONDecodeError
      | Some j \<Rightarrow>
          (case py_get j ''tokenInfo'' of
             Inl e \<Rightarrow> Inl e
           | Inr info \<Rightarrow> py_get info ''tokenValue''))"

text \<open>
  The tail both authentication protocols share: \<^verbatim>\<open>raise_for_status\<close>, storing the
  token, and the \<^verbatim>\<open>except HTTPError\<close> clause that turns a 401 into
  \<^verbatim>\<open>InvalidCredentialsException\<close>.
\<close>

definition store_token :: "http_outcome \<Rightarrow> client \<Rightarrow> (exn + unit) \<times> client" where
  "store_token out c =
     (case out of
        Fails \<Rightarrow> (Inl HTTPError, c)
      | Responds r \<Rightarrow>
          (case raise_for_status r of
             Some e \<Rightarrow>
               (if status_code r = 401 then Inl (InvalidCredentialsException e) else Inl e, c)
           | None \<Rightarrow>
               (case token_value r of
                  Inl e \<Rightarrow> (Inl e, c)
                | Inr t \<Rightarrow> (Inr (), c\<lparr>auth_token := t\<rparr>))))"

definition basic_auth_request :: "env \<Rightarrow> client \<Rightarrow> request" where
  "basic_auth_request E c =
     (let credentials =
            b64encode E (encode (str_opt (user_email c) @ '':'' @ str_opt (password c)))
      in \<lparr>req_method = POST, req_url = [Lit auth_url],
          req_headers = [(''Authorization'', [Lit ''Basic '', Fmt (JStr credentials)])],
          req_body = NoBody, req_timeout = timeout c\<rparr>)"

definition basic_auth :: "env \<Rightarrow> client \<Rightarrow> (exn + unit) \<times> client" where
  "basic_auth E c = (case send E (basic_auth_request E c) c of (out, c1) \<Rightarrow> store_token out c1)"

text \<open>
  \<^verbatim>\<open>_get_certificate\<close>. Where the certificate names a file, \<^verbatim>\<open>open\<close> either raises
  \<^verbatim>\<open>OSError\<close> or returns a file object, which \<^verbatim>\<open>async with\<close> rejects with a
  \<^verbatim>\<open>TypeError\<close> (an \<^verbatim>\<open>AttributeError\<close> before Python 3.11): the built-in file object
  is no asynchronous context manager.
\<close>

definition read_file :: "env \<Rightarrow> string \<Rightarrow> exn + bytes option" where
  "read_file E path = (if can_open E path then Inl TypeError else Inl OSError)"

definition get_certificate :: "env \<Rightarrow> client \<Rightarrow> exn + bytes option" where
  "get_certificate E c =
     (case certificate c of
        Some (Str s) \<Rightarrow> if isfile E (Str s) then read_file E s else Inr (Some (encode s))
      | Some (Bytes b) \<Rightarrow> Inr (Some b)
      | None \<Rightarrow> Inr None)"

text \<open>\<^verbatim>\<open>os.path.isfile(x)\<close> for an optional value: \<^verbatim>\<open>None\<close> raises \<^verbatim>\<open>TypeError\<close>.\<close>

definition os_path_isfile :: "env \<Rightarrow> str_or_bytes option \<Rightarrow> exn + bool" where
  "os_path_isfile E p = (case p of None \<Rightarrow> Inl TypeError | Some x \<Rightarrow> Inr (isfile E x))"

text \<open>\<^verbatim>\<open>load_pem_private_key(data, password, backend)\<close>; data that is \<^verbatim>\<open>None\<close> is a \<^verbatim>\<open>TypeError\<close>.\<close>

definition load_pem_private_key :: "env \<Rightarrow> bytes option \<Rightarrow> bytes option \<Rightarrow> exn + rsa_key" where
  "load_pem_private_key E data pw =
     (case data of
        None \<Rightarrow> Inl TypeError
      | Some d \<Rightarrow>
          (case pem_error E d pw of
             Some e \<Rightarrow> Inl (raise_crypto e)
           | None \<Rightarrow> Inr (RSAPrivateKey d pw)))"

text \<open>The clause \<^verbatim>\<open>except (IOError, InvalidKey, UnsupportedAlgorithm) as error\<close>.\<close>

definition key_error :: "exn \<Rightarrow> exn" where
  "key_error e =
     (if e = OSError \<or> e = InvalidKey \<or> e = UnsupportedAlgorithm
      then InvalidPrivateKeyException e else e)"

text \<open>The first half of \<^verbatim>\<open>_get_private_key\<close>: the key material.\<close>

definition private_key_data :: "env \<Rightarrow> client \<Rightarrow> exn + bytes option" where
  "private_key_data E c =
     (case private_key c of
        Some (Str s) \<Rightarrow>
          (case os_path_isfile E (certificate c) of
             Inl e \<Rightarrow> Inl e
           | Inr True \<Rightarrow> read_file E s
           | Inr False \<Rightarrow> Inr (Some (encode s)))
      | Some (Bytes b) \<Rightarrow> Inr (Some b)
      | None \<Rightarrow> Inr None)"

definition private_key_pw :: "client \<Rightarrow> bytes option" where
  "private_key_pw c =
     (if truthy_sb (private_key_password c)
      then (case private_key_password c of
              Some (Str s) \<Rightarrow> Some (encode s)
            | Some (Bytes b) \<Rightarrow> Some b
            | None \<Rightarrow> None)
      else None)"

definition get_private_key :: "env \<Rightarrow> client \<Rightarrow> exn + rsa_key" where
  "get_private_key E c =
     (case private_key_data E c of
        Inl e \<Rightarrow> Inl (key_error e)
      | Inr data \<Rightarrow>
          (case load_pem_private_key E data (private_key_pw c) of
             Inl e \<Rightarrow> Inl (key_error e)
           | Inr k \<Rightarrow> Inr k))"

text \<open>\<^verbatim>\<open>os.urandom(n)\<close>: \<open>n\<close> bytes of the entropy source.\<close>

definition os_urandom :: "env \<Rightarrow> client \<Rightarrow> nat \<Rightarrow> bytes" where
  "os_urandom E c n = map (entropy E (history c)) [0 ..< n]"

definition cert_auth_request :: "env \<Rightarrow> client \<Rightarrow> bytes \<Rightarrow> bytes \<Rightarrow> bytes \<Rightarrow> request" where
  "cert_auth_request E c cert message signature =
     (let encoded_cert = b64encode E cert;
          encoded_string = b64encode E message;
          encoded_signed_string = b64encode E signature;
          payload = JObj [(''encodedData'', JStr encoded_string),
                          (''encodedSignedData'', JStr encoded_signed_string)]
      in \<lparr>req_method = POST, req_url = [Lit auth_url],
          req_headers = [(''Authorization'', [Lit ''CACertificate '', Fmt (JStr encoded_cert)]),
                         (''Content-Type'', [Lit ''application/json''])],
          req_body = JsonBody payload, req_timeout = timeout c\<rparr>)"

definition cert_auth :: "env \<Rightarrow> client \<Rightarrow> (exn + unit) \<times> client" where
  "cert_auth E c =
     (let message = os_urandom E c 150
      in case get_certificate E c of
           Inl e \<Rightarrow> (Inl e, c)
         | Inr None \<Rightarrow> (Inl TypeError, c)
         | Inr (Some cert) \<Rightarrow>
             (case get_private_key E c of
                Inl e \<Rightarrow> (Inl e, c)
              | Inr key \<Rightarrow>
                  (case sign_rsa E key message PKCS1v15 SHA512 of
                     Inl e \<Rightarrow> (Inl (raise_crypto e), c)
                   | Inr signature \<Rightarrow>
                       (case send E (cert_auth_request E c cert message signature) c of
                          (out, c1) \<Rightarrow> store_token out c1))))"

section \<open>Authenticated calls\<close>

text \<open>\<^verbatim>\<open>self._cert_auth() if self.certificate else self._basic_auth()\<close>, awaited.\<close>

definition reauthenticate :: "env \<Rightarrow> client \<Rightarrow> (exn + unit) \<times> client" where
  "reauthenticate E c = (if truthy_sb (certificate c) then cert_auth E c else basic_auth E c)"

definition recover_or_raise :: "env \<Rightarrow> exn \<Rightarrow> client \<Rightarrow> (exn + unit) \<times> client" where
  "recover_or_raise E error c =
     (case error of
        HTTPStatusError code \<Rightarrow>
          (if code = 401 then
             (case reauthenticate E c of
                (Inl e, c1) \<Rightarrow> (Inl e, c1)
              | (Inr _, c1) \<Rightarrow> (Inl (ReAuthException error), c1))
           else if code = 404 then (Inl (InvalidIdentifierException error), c)
           else (Inl error, c))
      | _ \<Rightarrow> (Inl error, c))"

text \<open>
  The decorator
  \<^verbatim>\<open>@retry(retry=retry_if_exception_type(ReAuthException), stop=stop_after_attempt(2))\<close>
  of tenacity: an attempt that raises \<^verbatim>\<open>ReAuthException\<close> is repeated while fewer than
  two attempts have been made; when the second attempt raises it too, tenacity raises its
  \<^verbatim>\<open>RetryError\<close> from it (\<^verbatim>\<open>reraise\<close> is not set). Any other outcome of an attempt is
  the outcome of the call.
\<close>

definition retry :: "(client \<Rightarrow> (exn + 'a) \<times> client) \<Rightarrow> client \<Rightarrow> (exn + 'a) \<times> client" where
  "retry attempt c =
     (case attempt c of
        (Inl (ReAuthException x), c1) \<Rightarrow>
          (case attempt c1 of
             (Inl (ReAuthException y), c2) \<Rightarrow> (Inl (RetryError (ReAuthException y)), c2)
           | r \<Rightarrow> r)
      | r \<Rightarrow> r)"

definition token_header :: "client \<Rightarrow> string \<times> fstring" where
  "token_header c = (''Authorization'', [Lit ''AnaplanAuthToken '', Fmt (auth_token c)])"

text \<open>
  The \<^verbatim>\<open>except HTTPError as error: await self._recover_or_raise(error)\<close> clause; were
  \<^verbatim>\<open>_recover_or_raise\<close> to return, the function would return \<^verbatim>\<open>None\<close>.
\<close>

definition on_http_error :: "env \<Rightarrow> exn \<Rightarrow> 'a \<Rightarrow> client \<Rightarrow> (exn + 'a) \<times> client" where
  "on_http_error E error none c =
     (case recover_or_raise E error c of
        (Inl e, c1) \<Rightarrow> (Inl e, c1)
      | (Inr _, c1) \<Rightarrow> (Inr none, c1))"

definition get_request :: "fstring \<Rightarrow> client \<Rightarrow> request" where
  "get_request u c =
     \<lparr>req_method = GET, req_url = u, req_headers = [token_header c],
      req_body = NoBody, req_timeout = timeout c\<rparr>"

text \<open>The body of \<^verbatim>\<open>_get\<close>, one attempt.\<close>

definition get_attempt :: "env \<Rightarrow> fstring \<Rightarrow> client \<Rightarrow> (exn + json) \<times> client" where
  "get_attempt E u c =
     (case send E (get_request u c) c of
        (Fails, c1) \<Rightarrow> on_http_error E HTTPError JNull c1
      | (Responds r, c1) \<Rightarrow>
          (case raise_for_status r of
             Some error \<Rightarrow> on_http_error E error JNull c1
           | None \<Rightarrow>
               (case resp_json r of
                  None \<Rightarrow> (Inl JSONDecodeError, c1)
                | Some j \<Rightarrow> (Inr j, c1))))"

definition get :: "env \<Rightarrow> fstring \<Rightarrow> client \<Rightarrow> (exn + json) \<times> client" where
  "get E u = retry (get_attempt E u)"

text \<open>The body of \<^verbatim>\<open>_get_binary\<close>; \<^verbatim>\<open>None\<close> is the \<open>None\<close> of the option.\<close>

definition get_binary_attempt ::
  "env \<Rightarrow> fstring \<Rightarrow> client \<Rightarrow> (exn + bytes option) \<times> client" where
  "get_binary_attempt E u c =
     (case send E (get_request u c) c of
        (Fails, c1) \<Rightarrow> on_http_error E HTTPError None c1
      | (Responds r, c1) \<Rightarrow>
          (case raise_for_status r of
             Some error \<Rightarrow> on_http_error E error None c1
           | None \<Rightarrow> (Inr (Some (resp_content r)), c1)))"

definition get_binary :: "env \<Rightarrow> fstring \<Rightarrow> client \<Rightarrow> (exn + bytes option) \<times> client" where
  "get_binary E u = retry (get_binary_attempt E u)"

definition post_request :: "fstring \<Rightarrow> json option \<Rightarrow> client \<Rightarrow> request" where
  "post_request u js c =
     \<lparr>req_method = POST, req_url = u,
      req_headers = [token_header c, (''Content-Type'', [Lit ''application/json''])],
      req_body = (case js of None \<Rightarrow> NoBody | Some j \<Rightarrow> JsonBody j),
      req_timeout = timeout c\<rparr>"

text \<open>
  The body of \<^verbatim>\<open>_post\<close>. It takes \<^verbatim>\<open>.json()\<close> of the response as it comes: there is
  no \<^verbatim>\<open>raise_for_status\<close> here.
\<close>

definition post_attempt :: "env \<Rightarrow> fstring \<Rightarrow> json option \<Rightarrow> client \<Rightarrow> (exn + json) \<times> client" where
  "post_attempt E u js c =
     (case send E (post_request u js c) c of
        (Fails, c1) \<Rightarrow> on_http_error E HTTPError JNull c1
      | (Responds r, c1) \<Rightarrow>
          (case resp_json r of
             None \<Rightarrow> (Inl JSONDecodeError, c1)
           | Some j \<Rightarrow> (Inr j, c1)))"

definition post :: "env \<Rightarrow> fstring \<Rightarrow> json option \<Rightarrow> client \<Rightarrow> (exn + json) \<times> client" where
  "post E u js = retry (post_attempt E u js)"

text \<open>\<^verbatim>\<open>f"{self._base_url}/{self.workspace_id}/models/{self.model_id}/"\<close>\<close>

definition model_url :: "client \<Rightarrow> fstring" where
  "model_url c =
     [Lit base_url, Lit ''/'', Fmt (fmt_opt (workspace_id c)), Lit ''/models/'',
      Fmt (fmt_opt (model_id c)), Lit ''/'']"

definition chunk_url :: "client \<Rightarrow> int \<Rightarrow> int \<Rightarrow> fstring" where
  "chunk_url c file_id index =
     model_url c @ [Lit ''files/'', Fmt (JNum file_id), Lit ''/'', Lit ''chunks/'', Fmt (JNum index)]"

definition upload_chunk_request :: "env \<Rightarrow> int \<Rightarrow> int \<Rightarrow> bytes \<Rightarrow> client \<Rightarrow> request" where
  "upload_chunk_request E file_id index chunk c =
     \<lparr>req_method = PUT, req_url = chunk_url c file_id index,
      req_headers = [token_header c, (''Content-Type'', [Lit ''application/x-gzip''])],
      req_body = Content (gzip_compress E chunk), req_timeout = timeout c\<rparr>"

text \<open>The body of \<^verbatim>\<open>_upload_chunk\<close>.\<close>

definition upload_chunk_attempt ::
  "env \<Rightarrow> int \<Rightarrow> int \<Rightarrow> bytes \<Rightarrow> client \<Rightarrow> (exn + unit) \<times> client" where
  "upload_chunk_attempt E file_id index chunk c =
     (case send E (upload_chunk_request E file_id index chunk c) c of
        (Fails, c1) \<Rightarrow> on_http_error E HTTPError () c1
      | (Responds r, c1) \<Rightarrow>
          (case raise_for_status r of
             Some error \<Rightarrow> on_http_error E error () c1
           | None \<Rightarrow> (Inr (), c1)))"

definition upload_chunk :: "env \<Rightarrow> int \<Rightarrow> int \<Rightarrow> bytes \<Rightarrow> client \<Rightarrow> (exn + unit) \<times> client" where
  "upload_chunk E file_id index chunk = retry (upload_chunk_attempt E file_id index chunk)"

definition file_url :: "client \<Rightarrow> int \<Rightarrow> fstring" where
  "file_url c file_id = model_url c @ [Lit ''files/'', Fmt (JNum file_id)]"

definition set_chunk_count :: "env \<Rightarrow> int \<Rightarrow> int \<Rightarrow> client \<Rightarrow> (exn + unit) \<times> client" where
  "set_chunk_count E file_id num_chunks c =
     (case post E (file_url c file_id) (Some (JObj [(''chunkCount'', JNum num_chunks)])) c of
        (Inl e, c1) \<Rightarrow> (Inl e, c1)
      | (Inr _, c1) \<Rightarrow> (Inr (), c1))"

definition get_file :: "env \<Rightarrow> int \<Rightarrow> client \<Rightarrow> (exn + bytes option) \<times> client" where
  "get_file E file_id c = get_binary E (file_url c file_id) c"

section \<open>Uploading a file\<close>

text \<open>
  The tasks that \<^verbatim>\<open>asyncio.gather\<close> runs concurrently are calls of \<^verbatim>\<open>_upload_chunk\<close>, and
  what one of them does between two suspensions depends on what the others have done to
  the token and to the history meanwhile. So \<^verbatim>\<open>_upload_chunk\<close> is taken here at its
  suspension points. A task is ready to make an attempt (at the start, and again after the
  \<^verbatim>\<open>sleep(0)\<close> that tenacity awaits between two attempts); or it is suspended in
  \<^verbatim>\<open>await self._client.put(...)\<close>, the answer being what it will find when resumed; or it
  is suspended in the \<^verbatim>\<open>await self._client.post(...)\<close> of the reauthentication; or it has
  finished.
\<close>

datatype attempt = First | Second

datatype chunk_task =
    Ready attempt
  | AwaitingPut attempt http_outcome
  | AwaitingAuth attempt http_outcome
  | Finished "exn + unit"

text \<open>
  What \<^verbatim>\<open>_cert_auth\<close> or \<^verbatim>\<open>_basic_auth\<close>, whichever \<^verbatim>\<open>_recover_or_raise\<close> chooses, does
  before it awaits its \<^verbatim>\<open>POST\<close>: it builds the request, or raises.
\<close>

definition reauth_request :: "env \<Rightarrow> client \<Rightarrow> exn + request" where
  "reauth_request E c =
     (if truthy_sb (certificate c) then
        (let message = os_urandom E c 150
         in case get_certificate E c of
              Inl e \<Rightarrow> Inl e
            | Inr None \<Rightarrow> Inl TypeError
            | Inr (Some cert) \<Rightarrow>
                (case get_private_key E c of
                   Inl e \<Rightarrow> Inl e
                 | Inr key \<Rightarrow>
                     (case sign_rsa E key message PKCS1v15 SHA512 of
                        Inl e \<Rightarrow> Inl (raise_crypto e)
                      | Inr signature \<Rightarrow> Inr (cert_auth_request E c cert message signature))))
      else Inr (basic_auth_request E c))"

text \<open>
  What follows \<^verbatim>\<open>raise ReAuthException\<close>: tenacity schedules the second attempt after
  the first, and raises \<open>RetryError\<close> after the second.
\<close>

definition next_attempt :: "attempt \<Rightarrow> chunk_task" where
  "next_attempt a =
     (case a of
        First \<Rightarrow> Ready Second
      | Second \<Rightarrow> Finished (Inl (RetryError (ReAuthException (HTTPStatusError 401)))))"

text \<open>
  One resumption of the task that uploads \<open>chunk\<close> as chunk \<open>index\<close>: it runs from where
  the task is to its next suspension, or to its end. The request is built, with the token
  of that moment, when the call is made.
\<close>

definition chunk_step ::
  "env \<Rightarrow> int \<Rightarrow> int \<Rightarrow> bytes \<Rightarrow> chunk_task \<Rightarrow> client \<Rightarrow> chunk_task \<times> client" where
  "chunk_step E file_id index chunk t c =
     (case t of
        Ready a \<Rightarrow>
          (case send E (upload_chunk_request E file_id index chunk c) c of
             (out, c1) \<Rightarrow> (AwaitingPut a out, c1))
      | AwaitingPut a out \<Rightarrow>
          (case out of
             Fails \<Rightarrow> (Finished (Inl HTTPError), c)
           | Responds r \<Rightarrow>
               (case raise_for_status r of
                  None \<Rightarrow> (Finished (Inr ()), c)
                | Some error \<Rightarrow>
                    if status_code r = 401 then
                      (case reauth_request E c of
                         Inl e \<Rightarrow> (Finished (Inl e), c)
                       | Inr rq \<Rightarrow> (case send E rq c of (out', c1) \<Rightarrow> (AwaitingAuth a out', c1)))
                    else if status_code r = 404
                    then (Finished (Inl (InvalidIdentifierException error)), c)
                    else (Finished (Inl error), c)))
      | AwaitingAuth a out \<Rightarrow>
          (case store_token out c of
             (Inl e, c1) \<Rightarrow> (Finished (Inl e), c1)
           | (Inr _, c1) \<Rightarrow> (next_attempt a, c1))
      | Finished r \<Rightarrow> (Finished r, c))"








text \<open>
  A task resumed until it has finished, with nothing else running in between: the call
  awaited on its own.
\<close>

fun drive :: "nat \<Rightarrow> env \<Rightarrow> int \<Rightarrow> int \<Rightarrow> bytes \<Rightarrow> chunk_task \<Rightarrow> client \<Rightarrow> chunk_task \<times> client" where
  "drive 0 E file_id index chunk t c = (t, c)"
| "drive (Suc n) E file_id index chunk t c =
     (case chunk_step E file_id index chunk t c of
        (t', c') \<Rightarrow> drive n E file_id index chunk t' c')"


section \<open>Running an action\<close>

definition task_url :: "env \<Rightarrow> client \<Rightarrow> int \<Rightarrow> fstring" where
  "task_url E c action_id =
     model_url c @ [Fmt (JStr (determine_action_type E action_id)), Lit ''/'',
                    Fmt (JNum action_id), Lit ''/tasks'']"

definition invoke_action :: "env \<Rightarrow> int \<Rightarrow> client \<Rightarrow> (exn + json) \<times> client" where
  "invoke_action E action_id c =
     (case post E (task_url E c action_id) (Some (JObj [(''localeName'', JStr ''en_US'')])) c of
        (Inl e, c1) \<Rightarrow> (Inl e, c1)
      | (Inr response, c1) \<Rightarrow>
          (case py_get response ''task'' of
             Inl e \<Rightarrow> (Inl e, c1)
           | Inr task \<Rightarrow>
               (case py_get task ''taskId'' of
                  Inl e \<Rightarrow> (Inl e, c1)
                | Inr task_id \<Rightarrow> (Inr task_id, c1))))"

definition get_task_status :: "env \<Rightarrow> int \<Rightarrow> json \<Rightarrow> client \<Rightarrow> (exn + json) \<times> client" where
  "get_task_status E action_id task_id c =
     (case get E (task_url E c action_id @ [Lit ''/'', Fmt task_id]) c of
        (Inl e, c1) \<Rightarrow> (Inl e, c1)
      | (Inr j, c1) \<Rightarrow> (py_get j ''task'', c1))"

text \<open>\<^verbatim>\<open>needle in s\<close> for two strings: \<open>needle\<close> occurs in \<open>s\<close> as a contiguous run.\<close>

fun str_contains :: "string \<Rightarrow> string \<Rightarrow> bool" where
  "str_contains needle [] = (needle = [])"
| "str_contains needle (x # xs) = (prefix needle (x # xs) \<or> str_contains needle xs)"

text \<open>
  \<^verbatim>\<open>needle in v\<close> for a string \<open>needle\<close> and a JSON-decoded \<open>v\<close>: substring of a
  string, element of a list, key of a dict, and \<^verbatim>\<open>TypeError\<close> for \<^verbatim>\<open>None\<close>, a number or
  a boolean.
\<close>

definition py_in :: "string \<Rightarrow> json \<Rightarrow> exn + bool" where
  "py_in needle v =
     (case v of
        JStr s \<Rightarrow> Inr (str_contains needle s)
      | JArr xs \<Rightarrow> Inr (List.member xs (JStr needle))
      | JObj kvs \<Rightarrow> Inr (List.member (map fst kvs) needle)
      | _ \<Rightarrow> Inl TypeError)"

text \<open>
  \<^verbatim>\<open>time.sleep(secs)\<close>: the blocking sleep of the standard library. It raises
  \<^verbatim>\<open>ValueError\<close> for a negative length, and \<^verbatim>\<open>OverflowError\<close> or \<^verbatim>\<open>OSError\<close> for one
  the platform cannot take; in both cases nothing is slept.
\<close>

definition time_sleep :: "env \<Rightarrow> int \<Rightarrow> client \<Rightarrow> (exn + unit) \<times> client" where
  "time_sleep E secs c =
     (if secs < 0 then (Inl ValueError, c)
      else (case sleep_rejects E secs of
              Some failure \<Rightarrow> (Inl (raise_sleep failure), c)
            | None \<Rightarrow> (Inr (), c\<lparr>history := history c @ [TimeSleep secs]\<rparr>)))"

text \<open>\<^verbatim>\<open>"COMPLETE" not in task_status.get("taskState")\<close>, the condition of the loop.\<close>

definition not_complete :: "json \<Rightarrow> exn + bool" where
  "not_complete task_status =
     (case py_get task_status ''taskState'' of
        Inl e \<Rightarrow> Inl e
      | Inr st \<Rightarrow> (case py_in ''COMPLETE'' st of Inl e \<Rightarrow> Inl e | Inr b \<Rightarrow> Inr (\<not> b)))"

text \<open>
  The \<^verbatim>\<open>while\<close> loop of \<^verbatim>\<open>run_action\<close>, from a task status on; it returns the status
  it ends with. Nothing bounds the number of polls, so the loop may run forever: that is
  the value \<open>None\<close>.
\<close>

partial_function (option) poll_loop ::
  "env \<Rightarrow> int \<Rightarrow> json \<Rightarrow> json \<Rightarrow> client \<Rightarrow> ((exn + json) \<times> client) option" where
  "poll_loop E action_id task_id task_status c =
     (case not_complete task_status of
        Inl e \<Rightarrow> Some (Inl e, c)
      | Inr go_on \<Rightarrow>
          if \<not> go_on then Some (Inr task_status, c)
          else
            (case time_sleep E (status_poll_delay c) c of
               (Inl e, c1) \<Rightarrow> Some (Inl e, c1)
             | (Inr _, c1) \<Rightarrow>
                 (case get_task_status E action_id task_id c1 of
                    (Inl e, c2) \<Rightarrow> Some (Inl e, c2)
                  | (Inr task_status', c2) \<Rightarrow> poll_loop E action_id task_id task_status' c2)))"

text \<open>
  The statement after the loop:
  \<^verbatim>\<open>if task_status.get("taskState") == "COMPLETE" and
      not task_status.get("result").get("successful"): raise AnaplanActionError(...)\<close>
\<close>

definition action_error :: "json \<Rightarrow> exn" where
  "action_error task_id =
     AnaplanActionError
       [Lit (''Task '' @ [CHR 0x27]), Fmt task_id, Lit (CHR 0x27 # '' completed with errors.'')]"

definition check_task :: "json \<Rightarrow> json \<Rightarrow> exn + unit" where
  "check_task task_id task_status =
     (case py_get task_status ''taskState'' of
        Inl e \<Rightarrow> Inl e
      | Inr st \<Rightarrow>
          if st = JStr ''COMPLETE'' then
            (case py_get task_status ''result'' of
               Inl e \<Rightarrow> Inl e
             | Inr result \<Rightarrow>
                 (case py_get result ''successful'' of
                    Inl e \<Rightarrow> Inl e
                  | Inr successful \<Rightarrow>
                      if \<not> truthy successful then Inl (action_error task_id) else Inr ()))
          else Inr ())"

definition run_action :: "env \<Rightarrow> int \<Rightarrow> client \<Rightarrow> ((exn + unit) \<times> client) option" where
  "run_action E action_id c =
     (case invoke_action E action_id c of
        (Inl e, c1) \<Rightarrow> Some (Inl e, c1)
      | (Inr task_id, c1) \<Rightarrow>
          (case get_task_status E action_id task_id c1 of
             (Inl e, c2) \<Rightarrow> Some (Inl e, c2)
           | (Inr task_status, c2) \<Rightarrow>
               (case poll_loop E action_id task_id task_status c2 of
                  None \<Rightarrow> None
                | Some (Inl e, c3) \<Rightarrow> Some (Inl e, c3)
                | Some (Inr final_status, c3) \<Rightarrow> Some (check_task task_id final_status, c3))))"

section \<open>Observing a run\<close>


text \<open>
  A request that carries the token, \<^verbatim>\<open>Authorization: AnaplanAuthToken <token>\<close>, and a
  request to the authentication endpoint, whose authorization is \<^verbatim>\<open>Basic\<close> or
  \<^verbatim>\<open>CACertificate\<close>.
\<close>

definition authorization_scheme :: "request \<Rightarrow> string option" where
  "authorization_scheme rq =
     (case map_of (req_headers rq) ''Authorization'' of
        Some (Lit scheme # _) \<Rightarrow> Some scheme
      | _ \<Rightarrow> None)"

definition is_token_call :: "event \<Rightarrow> bool" where
  "is_token_call ev =
     (case ev of
        Request rq \<Rightarrow> authorization_scheme rq = Some ''AnaplanAuthToken ''
      | TimeSleep _ \<Rightarrow> False)"

definition is_reauth :: "event \<Rightarrow> bool" where
  "is_reauth ev =
     (case ev of
        Request rq \<Rightarrow>
          req_method rq = POST \<and> req_url rq = [Lit auth_url]
          \<and> (authorization_scheme rq = Some ''Basic ''
               \<or> authorization_scheme rq = Some ''CACertificate '')
      | TimeSleep _ \<Rightarrow> False)"

definition is_put :: "event \<Rightarrow> bool" where
  "is_put ev = (case ev of Request rq \<Rightarrow> req_method rq = PUT | TimeSleep _ \<Rightarrow> False)"

text \<open>
  The chunk a \<^verbatim>\<open>PUT\<close> request transmits: the index its URL ends with, and its body.
\<close>

definition put_of :: "event \<Rightarrow> (int \<times> req_body) option" where
  "put_of ev =
     (case ev of
        Request rq \<Rightarrow>
          (if req_method rq = PUT \<and> req_url rq \<noteq> []
           then (case last (req_url rq) of Fmt (JNum i) \<Rightarrow> Some (i, req_body rq) | _ \<Rightarrow> None)
           else None)
      | TimeSleep _ \<Rightarrow> None)"

text \<open>The chunks the \<^verbatim>\<open>PUT\<close> requests among some events transmit, in their order.\<close>

definition puts :: "event list \<Rightarrow> (int \<times> req_body) list" where
  "puts evs = List.map_filter put_of evs"




text \<open>The lengths of the \<^verbatim>\<open>time.sleep\<close> calls among some events.\<close>

definition sleeps :: "event list \<Rightarrow> int list" where
  "sleeps evs = List.map_filter (\<lambda>ev. case ev of TimeSleep secs \<Rightarrow> Some secs | Request _ \<Rightarrow> None) evs"

definition final_sleeps :: "((exn + unit) \<times> client) option \<Rightarrow> int list option" where
  "final_sleeps out = map_option (\<lambda>rc. sleeps (history (snd rc))) out"

definition is_401 :: "http_outcome \<Rightarrow> bool" where
  "is_401 out = (case out of Responds r \<Rightarrow> status_code r = 401 | Fails \<Rightarrow> False)"

text \<open>
  The client after a request that the server answers with 401 and the reauthentication
  that follows, when that succeeds; \<open>None\<close> when the answer is another one or the
  reauthentication raises.
\<close>

definition after_401 :: "env \<Rightarrow> request \<Rightarrow> client \<Rightarrow> client option" where
  "after_401 E rq c =
     (case send E rq c of
        (out, c1) \<Rightarrow>
          if is_401 out
          then (case reauthenticate E c1 of (Inr _, c2) \<Rightarrow> Some c2 | (Inl _, _) \<Rightarrow> None)
          else None)"

definition error_of :: "exn + 'a \<Rightarrow> exn option" where
  "error_of r = (case r of Inl e \<Rightarrow> Some e | Inr _ \<Rightarrow> None)"

text \<open>
  What an attempt makes of an answer that is no 401: the \<^verbatim>\<open>except\<close> clause and
  \<^verbatim>\<open>_recover_or_raise\<close> turn a 404 into \<open>InvalidIdentifierException\<close> and re-raise any
  other error, and \<open>ok\<close> reads the result off a response whose status is a success.
\<close>

definition plain_result :: "(response \<Rightarrow> exn + 'a) \<Rightarrow> http_outcome \<Rightarrow> exn + 'a" where
  "plain_result ok out =
     (case out of
        Fails \<Rightarrow> Inl HTTPError
      | Responds r \<Rightarrow>
          (case raise_for_status r of
             None \<Rightarrow> ok r
           | Some error \<Rightarrow>
               if status_code r = 404 then Inl (InvalidIdentifierException error)
               else Inl error))"







definition poll_request :: "env \<Rightarrow> client \<Rightarrow> int \<Rightarrow> json \<Rightarrow> request" where
  "poll_request E c action_id task_id =
     get_request (task_url E c action_id @ [Lit ''/'', Fmt task_id]) c"


section \<open>Notions used in the proofs\<close>

text \<open>
  Events that a reauthentication may leave: at most one, a request to the authentication
  endpoint.
\<close>

definition reauth_only :: "event list \<Rightarrow> bool" where
  "reauth_only evs = (length evs \<le> 1 \<and> list_all (\<lambda>ev. is_reauth ev \<and> \<not> is_token_call ev \<and> \<not> is_put ev) evs)"

text \<open>
  The two exceptions the module raises for its own control flow and outcome; everything
  that comes from the libraries or from the server's answers is neither.
\<close>

fun is_signal :: "exn \<Rightarrow> bool" where
  "is_signal (ReAuthException _) = True"
| "is_signal (AnaplanActionError _) = True"
| "is_signal _ = False"

text \<open>The shape the bodies of \<^verbatim>\<open>_get\<close>, \<^verbatim>\<open>_get_binary\<close> and \<^verbatim>\<open>_upload_chunk\<close> share.\<close>

definition guarded_call ::
  "env \<Rightarrow> (client \<Rightarrow> request) \<Rightarrow> 'a \<Rightarrow> (response \<Rightarrow> exn + 'a) \<Rightarrow> client \<Rightarrow> (exn + 'a) \<times> client" where
  "guarded_call E rq none ok c =
     (case send E (rq c) c of
        (Fails, c1) \<Rightarrow> on_http_error E HTTPError none c1
      | (Responds r, c1) \<Rightarrow>
          (case raise_for_status r of
             Some error \<Rightarrow> on_http_error E error none c1
           | None \<Rightarrow> (ok r, c1)))"

definition attempt_contract ::
  "env \<Rightarrow> (client \<Rightarrow> request) \<Rightarrow> (client \<Rightarrow> (exn + 'a) \<times> client) \<Rightarrow> bool" where
  "attempt_contract E rq f =
     (\<forall>c. \<exists>evs. history (snd (f c)) = history c @ Request (rq c) # evs \<and> reauth_only evs
        \<and> (case after_401 E (rq c) c of
             Some c2 \<Rightarrow> f c = (Inl (ReAuthException (HTTPStatusError 401)), c2) \<and> length evs = 1
           | None \<Rightarrow> (\<forall>e. fst (f c) = Inl e \<longrightarrow> \<not> is_signal e)))"




definition signal_401 :: "exn + unit" where
  "signal_401 = Inl (ReAuthException (HTTPStatusError 401))"

section \<open>A concrete environment\<close>

text \<open>
  An environment, servers and a client to run the model on: the client is the one
  \<^verbatim>\<open>AsyncClient(workspace_id="ws", model_id="m", user_email="u@x", password="pw",
  upload_chunk_size=3)\<close> builds.
\<close>

definition ok_response :: "json \<Rightarrow> http_outcome" where
  "ok_response j = Responds \<lparr>status_code = 200, resp_content = [], resp_json = Some j\<rparr>"

definition status_response :: "nat \<Rightarrow> http_outcome" where
  "status_response n = Responds \<lparr>status_code = n, resp_content = [], resp_json = Some (JObj [])\<rparr>"

definition token_reply :: http_outcome where
  "token_reply = ok_response (JObj [(''tokenInfo'', JObj [(''tokenValue'', JStr ''T2'')])])"

definition to_auth :: "event list \<Rightarrow> bool" where
  "to_auth h = (case rev h of Request rq # _ \<Rightarrow> req_url rq = [Lit auth_url] | _ \<Rightarrow> False)"

definition demo_env :: "(event list \<Rightarrow> http_outcome) \<Rightarrow> env" where
  "demo_env srv =
     \<lparr>server = srv, determine_action_type = (\<lambda>_. ''imports''),
      b64encode = map (\<lambda>b. char_of (unat b)), gzip_compress = (\<lambda>b. b),
      isfile = (\<lambda>p. p = Str ''/keys/key.pem''), can_open = (\<lambda>_. True),
      entropy = (\<lambda>_ _. 0), pem_error = (\<lambda>_ _. None), sign_rsa = (\<lambda>k m p h. Inr m),
      sleep_rejects = (\<lambda>secs. if 9223372036 < secs then Some SleepOverflowError else None)\<rparr>"

definition expired_server :: "event list \<Rightarrow> http_outcome" where
  "expired_server h = (if to_auth h then token_reply else status_response 401)"

definition demo_client :: client where
  "demo_client =
     \<lparr>workspace_id = Some ''ws'', model_id = Some ''m'', user_email = Some ''u@x'',
      password = Some ''pw'', certificate = None, private_key = None,
      private_key_password = None, timeout = 30, status_poll_delay = 1,
      upload_chunk_size = 3, auth_token = JStr [], history = []\<rparr>"

text \<open>
  A client with certificate credentials: the certificate as bytes, the private key as the
  path of a file that exists in \<open>demo_env\<close>.
\<close>

definition cert_client :: client where
  "cert_client =
     demo_client\<lparr>user_email := None, password := None, certificate := Some (Bytes [1, 2]),
                  private_key := Some (Str ''/keys/key.pem'')\<rparr>"

text \<open>The same credentials with the key given as bytes that are no PEM document.\<close>

definition raw_key_client :: client where
  "raw_key_client = cert_client\<lparr>private_key := Some (Bytes [3, 4])\<rparr>"

definition not_found_server :: "event list \<Rightarrow> http_outcome" where
  "not_found_server h = status_response 404"

text \<open>An environment whose key loader rejects the data as malformed.\<close>

definition malformed_key_env :: env where
  "malformed_key_env = (demo_env expired_server)\<lparr>pem_error := (\<lambda>_ _. Some CryptoValueError)\<rparr>"

text \<open>
  A server for \<^verbatim>\<open>run_action\<close>: it answers the invocation with the task \<^verbatim>\<open>T1\<close>, the
  polls before the first sleep with a task in progress, and the later ones with the given
  final status.
\<close>

definition invoke_reply :: http_outcome where
  "invoke_reply = ok_response (JObj [(''task'', JObj [(''taskId'', JStr ''T1'')])])"

definition task_reply :: "json \<Rightarrow> http_outcome" where
  "task_reply task_status = ok_response (JObj [(''task'', task_status)])"

definition task_server :: "json \<Rightarrow> event list \<Rightarrow> http_outcome" where
  "task_server final h =
     (case rev h of
        Request rq # _ \<Rightarrow>
          if req_method rq = POST then invoke_reply
          else if sleeps h = [] then task_reply (JObj [(''taskState'', JStr ''IN_PROGRESS'')])
          else task_reply final
      | _ \<Rightarrow> Fails)"

definition task_done :: json where
  "task_done = JObj [(''taskState'', JStr ''COMPLETE''), (''result'', JObj [(''successful'', JBool True)])]"

definition task_odd :: json where
  "task_odd = JObj [(''taskState'', JStr ''COMPLETE_WITH_ERRORS''),
                    (''result'', JObj [(''successful'', JBool False)])]"







section \<open>The partition of the content\<close>

lemma ceil_div_nat:
  assumes "0 < C"
  shows "nat ((int N - 0 + C - 1) div C) = (N + nat C - 1) div nat C"
proof -
  obtain c where c: "C = int c" "0 < c" using assms
    by (metis nat_0_le order_less_imp_le zero_less_nat_eq)
  have "int N + int c - 1 = int (N + c - 1)" using c by (simp add: of_nat_diff)
  then have "(int N - 0 + C - 1) div C = int ((N + c - 1) div c)"
    using c by (simp add: zdiv_int)
  then show ?thesis using c by simp
qed

lemma py_slice_chunk:
  assumes "0 < C"
  shows "py_slice content (int k * C) (int k * C + C) = take (nat C) (drop (k * nat C) content)"
proof -
  obtain c where c: "C = int c" "0 < c" using assms
    by (metis nat_0_le order_less_imp_le zero_less_nat_eq)
  let ?n = "length content"
  have kc1: "int k * C = int (k * c)"
    using c by simp
  have kc2: "int k * C + C = int (k * c + c)"
    using c by simp
  have sb: "slice_bound (int ?n) (int m) = int (min m ?n)" for m
    by (simp add: slice_bound_def min_def)
  have lo: "slice_bound (int ?n) (int k * C) = int (min (k * c) ?n)"
    by (simp only: kc1 sb)
  have hi: "slice_bound (int ?n) (int k * C + C) = int (min (k * c + c) ?n)"
    by (simp only: kc2 sb)
  have t: "take (min (k * c + c) ?n - min (k * c) ?n) (drop (min (k * c) ?n) content)
        = take c (drop (k * c) content)"
    by (cases "k * c \<le> ?n") (auto simp: min_def)
  have d: "nat (int a - int b) = a - b" for a b :: nat
    by simp
  have "py_slice content (int k * C) (int k * C + C)
        = take (min (k * c + c) ?n - min (k * c) ?n) (drop (min (k * c) ?n) content)"
    by (simp only: py_slice_def Let_def lo hi d nat_int)
  then show ?thesis
    using t c by simp
qed

lemma chunks_of_pos:
  assumes "0 < C"
  shows "chunks_of C content =
    Inr (map (\<lambda>k. take (nat C) (drop (k * nat C) content))
          [0 ..< (length content + nat C - 1) div nat C])"
proof -
  have r: "py_range 0 (int (length content)) C
      = Inr (map (\<lambda>k. 0 + int k * C) [0 ..< (length content + nat C - 1) div nat C])"
    using assms by (simp only: py_range_def ceil_div_nat) simp
  show ?thesis
    unfolding chunks_of_def r using assms
    by (simp add: py_slice_chunk comp_def)
qed

lemma concat_take_drop:
  "0 < c \<Longrightarrow> length xs \<le> n * c \<Longrightarrow> concat (map (\<lambda>k. take c (drop (k * c) xs)) [0 ..< n]) = xs"
proof (induction n arbitrary: xs)
  case 0
  then show ?case by simp
next
  case (Suc n)
  have "[0 ..< Suc n] = 0 # map Suc [0 ..< n]"
    by (simp add: upt_conv_Cons map_Suc_upt del: upt_Suc)
  then have "concat (map (\<lambda>k. take c (drop (k * c) xs)) [0 ..< Suc n])
      = take c xs @ concat (map (\<lambda>k. take c (drop (k * c) (drop c xs))) [0 ..< n])"
    by (simp add: comp_def add.commute del: upt_Suc)
  moreover have "length (drop c xs) \<le> n * c"
    using Suc.prems by simp
  ultimately show ?case
    using Suc.IH [of "drop c xs"] Suc.prems(1) by simp
qed

lemma ceil_div_lower:
  fixes c :: nat
  assumes "0 < c"
  shows "N \<le> ((N + c - 1) div c) * c"
proof -
  let ?M = "N + c - 1"
  have "?M div c * c + ?M mod c = ?M" by simp
  moreover have "?M mod c < c" using assms by simp
  ultimately show ?thesis using assms by linarith
qed

lemma ceil_div_upper:
  fixes c :: nat
  assumes "0 < c"
  shows "((N + c - 1) div c) * c < N + c"
proof -
  have "(N + c - 1) div c * c \<le> N + c - 1" by simp
  then show ?thesis using assms by linarith
qed

lemma ceil_div_real:
  fixes c :: nat
  assumes "0 < c"
  shows "\<lceil>real N / real c\<rceil> = int ((N + c - 1) div c)"
proof (rule ceiling_unique)
  let ?q = "(N + c - 1) div c"
  have "real (?q * c) < real (N + c)"
    using ceil_div_upper [OF assms, of N] by (simp only: of_nat_less_iff)
  then have "(real ?q - 1) * real c < real N"
    by (simp add: algebra_simps)
  then show "of_int (int ?q) - 1 < real N / real c"
    using assms by (simp add: pos_less_divide_eq)
  have "real N \<le> real (?q * c)"
    using ceil_div_lower [OF assms, of N] by (simp only: of_nat_le_iff)
  then show "real N / real c \<le> of_int (int ?q)"
    using assms by (simp add: pos_divide_le_eq)
qed

text \<open>
  Claim C2. For content of length \<open>N\<close> and a chunk size \<open>C\<close> (a size: positive), the
  partition of \<^verbatim>\<open>upload_file\<close> has \<open>\<lceil>N / C\<rceil>\<close> chunks, none when \<open>N = 0\<close>; chunk \<open>i\<close>
  is the bytes \<open>[i * C, min ((i + 1) * C) N)\<close> of the content; and the chunks, concatenated
  in index order, are the content.
\<close>

theorem upload_file_chunks:
  assumes "0 < C"
  shows "\<exists>cs. chunks_of C content = Inr cs
           \<and> int (length cs) = \<lceil>real (length content) / real_of_int C\<rceil>
           \<and> (length content = 0 \<longrightarrow> cs = [])
           \<and> (\<forall>i < length cs.
                 cs ! i = byte_range content (i * nat C) (min ((i + 1) * nat C) (length content)))
           \<and> concat cs = content"
proof -
  let ?c = "nat C"
  let ?n = "(length content + ?c - 1) div ?c"
  let ?cs = "map (\<lambda>k. take ?c (drop (k * ?c) content)) [0 ..< ?n]"
  have c: "0 < ?c" "C = int ?c" using assms by simp_all
  have 1: "chunks_of C content = Inr ?cs"
    using assms by (rule chunks_of_pos)
  have 2: "int (length ?cs) = \<lceil>real (length content) / real_of_int C\<rceil>"
    using ceil_div_real [OF c(1), of "length content"] c(2)
    by (metis length_map length_upt diff_zero of_int_of_nat_eq)
  have 3: "length content = 0 \<longrightarrow> ?cs = []"
    using c(1) by simp
  have 4: "\<forall>i < length ?cs.
      ?cs ! i = byte_range content (i * ?c) (min ((i + 1) * ?c) (length content))"
    by (auto simp: byte_range_def min_def) 
  have "length content \<le> ?n * ?c"
    using c(1) by (rule ceil_div_lower)
  then have 5: "concat ?cs = content"
    using c(1) by (rule concat_take_drop [rotated])
  from 1 2 3 4 5 show ?thesis by blast
qed

theorem upload_file_chunks_witness:
  "(0::int) < 3
   \<and> chunks_of 3 [1, 2, 3, 4, 5, 6, 7] = Inr [[1, 2, 3], [4, 5, 6], [7]]
   \<and> (\<exists>cs. chunks_of 3 [1, 2, 3, 4, 5, 6, 7] = Inr cs
         \<and> int (length cs) = \<lceil>real (length [1, 2, 3, 4, 5, 6, 7 :: byte]) / real_of_int 3\<rceil>
         \<and> concat cs = [1, 2, 3, 4, 5, 6, 7])"
proof -
  have h: "(0::int) < 3" by simp
  have e: "chunks_of 3 [1, 2, 3, 4, 5, 6, 7] = Inr [[1, 2, 3], [4, 5, 6], [7]]"
    by (simp add: chunks_of_def py_range_def py_slice_def slice_bound_def upt_conv_Cons)
  show ?thesis
    using h e upload_file_chunks [OF h, of "[1, 2, 3, 4, 5, 6, 7]"] by auto
qed

text \<open>
  Outside the sizes: a chunk size of zero makes \<^verbatim>\<open>range\<close> raise before anything is sent,
  and a negative one yields no chunk at all, whatever the content.
\<close>

lemma chunks_of_zero: "chunks_of 0 content = Inl ValueError"
  by (simp add: chunks_of_def py_range_def)

lemma chunks_of_negative:
  assumes "C < 0"
  shows "chunks_of C content = Inr []"
proof -
  let ?a = "0 - int (length content) - C - 1"
  have "?a < - C" by simp
  then have "?a div (- C) \<le> 0"
    using assms by (cases "?a < 0") (simp_all add: div_nonpos_pos_le0 div_pos_pos_trivial)
  then show ?thesis
    using assms by (simp add: chunks_of_def py_range_def)
qed

section \<open>Reauthentication and the retry\<close>

lemma store_token_history: "store_token out c = (r, c') \<Longrightarrow> history c' = history c"
  by (auto simp: store_token_def split: http_outcome.splits option.splits sum.splits if_splits)

lemma store_token_no_signal: "store_token out c = (Inl e, c') \<Longrightarrow> \<not> is_signal e"
  by (auto simp: store_token_def token_value_def py_get_def raise_for_status_def
      split: http_outcome.splits option.splits sum.splits if_splits json.splits)

lemma basic_auth_request_reauth:
  "is_reauth (Request (basic_auth_request E c))"
  "\<not> is_token_call (Request (basic_auth_request E c))"
  "\<not> is_put (Request (basic_auth_request E c))"
  by (simp_all add: is_reauth_def is_token_call_def is_put_def basic_auth_request_def
      authorization_scheme_def Let_def)

lemma cert_auth_request_reauth:
  "is_reauth (Request (cert_auth_request E c cert m sg))"
  "\<not> is_token_call (Request (cert_auth_request E c cert m sg))"
  "\<not> is_put (Request (cert_auth_request E c cert m sg))"
  by (simp_all add: is_reauth_def is_token_call_def is_put_def cert_auth_request_def
      authorization_scheme_def Let_def)

lemma basic_auth_events:
  assumes "basic_auth E c = (r, c')"
  shows "\<exists>ev. history c' = history c @ [ev] \<and> reauth_only [ev]"
    and "r = Inl e \<Longrightarrow> \<not> is_signal e"
proof -
  obtain out c1 where s: "send E (basic_auth_request E c) c = (out, c1)"
    by (cases "send E (basic_auth_request E c) c")
  then have st: "store_token out c1 = (r, c')"
    using assms by (simp add: basic_auth_def)
  have h1: "history c1 = history c @ [Request (basic_auth_request E c)]"
    using s by (auto simp: send_def Let_def)
  show "\<exists>ev. history c' = history c @ [ev] \<and> reauth_only [ev]"
    using store_token_history [OF st] h1
    by (simp add: reauth_only_def basic_auth_request_reauth)
  show "r = Inl e \<Longrightarrow> \<not> is_signal e"
    using store_token_no_signal st by blast
qed

lemma raise_crypto_no_signal: "\<not> is_signal (raise_crypto e)"
  by (cases e) simp_all

lemma key_error_no_signal: "\<not> is_signal e \<Longrightarrow> \<not> is_signal (key_error e)"
  by (simp add: key_error_def)

lemma get_certificate_no_signal: "get_certificate E c = Inl e \<Longrightarrow> \<not> is_signal e"
  by (auto simp: get_certificate_def read_file_def
      split: option.splits str_or_bytes.splits if_splits)

lemma private_key_data_no_signal: "private_key_data E c = Inl e \<Longrightarrow> \<not> is_signal e"
  by (auto simp: private_key_data_def read_file_def os_path_isfile_def
      split: option.splits str_or_bytes.splits sum.splits bool.splits if_splits)

lemma load_pem_no_signal: "load_pem_private_key E d pw = Inl e \<Longrightarrow> \<not> is_signal e"
  by (auto simp: load_pem_private_key_def raise_crypto_no_signal split: option.splits)

lemma get_private_key_no_signal:
  assumes "get_private_key E c = Inl e"
  shows "\<not> is_signal e"
proof (cases "private_key_data E c")
  case (Inl e')
  then have "e = key_error e'" using assms by (simp add: get_private_key_def)
  then show ?thesis
    using private_key_data_no_signal [OF Inl] by (simp add: key_error_no_signal)
next
  case (Inr data)
  then obtain e' where "load_pem_private_key E data (private_key_pw c) = Inl e'" "e = key_error e'"
    using assms by (auto simp: get_private_key_def split: sum.splits)
  then show ?thesis
    using load_pem_no_signal by (simp add: key_error_no_signal)
qed

lemma cert_auth_events:
  assumes "cert_auth E c = (r, c')"
  shows "\<exists>evs. history c' = history c @ evs \<and> reauth_only evs \<and> (r = Inr () \<longrightarrow> length evs = 1)"
    and "r = Inl e \<Longrightarrow> \<not> is_signal e"
proof -
  let ?m = "os_urandom E c 150"
  consider (early) e' where "c' = c" "r = Inl e'" "\<not> is_signal e'"
    | (sent) cert sg out c1 where
        "send E (cert_auth_request E c cert ?m sg) c = (out, c1)" "store_token out c1 = (r, c')"
    using assms get_certificate_no_signal [of E c] get_private_key_no_signal [of E c]
    by (cases "get_certificate E c"; cases "get_private_key E c")
       (auto simp: cert_auth_def Let_def raise_crypto_no_signal
          split: option.splits sum.splits prod.splits)
  then have "(\<exists>evs. history c' = history c @ evs \<and> reauth_only evs \<and> (r = Inr () \<longrightarrow> length evs = 1))
      \<and> (r = Inl e \<longrightarrow> \<not> is_signal e)"
  proof cases
    case early
    then show ?thesis by (auto simp: reauth_only_def)
  next
    case sent
    have "history c1 = history c @ [Request (cert_auth_request E c cert ?m sg)]"
      using sent(1) by (auto simp: send_def Let_def)
    then show ?thesis
      using store_token_history [OF sent(2)] store_token_no_signal sent(2)
      by (auto simp: reauth_only_def cert_auth_request_reauth)
  qed
  then show "\<exists>evs. history c' = history c @ evs \<and> reauth_only evs \<and> (r = Inr () \<longrightarrow> length evs = 1)"
    and "r = Inl e \<Longrightarrow> \<not> is_signal e"
    by blast+
qed

lemma reauthenticate_events:
  assumes "reauthenticate E c = (r, c')"
  shows "\<exists>evs. history c' = history c @ evs \<and> reauth_only evs \<and> (r = Inr () \<longrightarrow> length evs = 1)"
    and "r = Inl e \<Longrightarrow> \<not> is_signal e"
proof -
  show "\<exists>evs. history c' = history c @ evs \<and> reauth_only evs \<and> (r = Inr () \<longrightarrow> length evs = 1)"
  proof (cases "truthy_sb (certificate c)")
    case True
    then show ?thesis using assms cert_auth_events(1) [of E c r c']
      by (simp add: reauthenticate_def)
  next
    case False
    then have "basic_auth E c = (r, c')" using assms by (simp add: reauthenticate_def)
    from basic_auth_events(1) [OF this] show ?thesis by auto
  qed
  show "r = Inl e \<Longrightarrow> \<not> is_signal e"
    using assms cert_auth_events(2) [of E c r c' e] basic_auth_events(2) [of E c r c' e]
    by (simp add: reauthenticate_def split: if_splits)
qed

text \<open>What the except clause of an attempt does, by the error it handles.\<close>

lemma on_http_error_401:
  assumes "reauthenticate E c = (Inr u, c2)"
  shows "on_http_error E (HTTPStatusError 401) none c = (Inl (ReAuthException (HTTPStatusError 401)), c2)"
  using assms by (simp add: on_http_error_def recover_or_raise_def)

lemma on_http_error_401_failed:
  assumes "reauthenticate E c = (Inl e, c2)"
  shows "on_http_error E (HTTPStatusError 401) none c = (Inl e, c2)"
  using assms by (simp add: on_http_error_def recover_or_raise_def)

lemma on_http_error_other:
  assumes "error \<noteq> HTTPStatusError 401" "\<not> is_signal error"
  shows "\<exists>e. on_http_error E error none c = (Inl e, c) \<and> \<not> is_signal e"
  using assms by (cases error) (auto simp: on_http_error_def recover_or_raise_def)


lemma get_attempt_guarded:
  "get_attempt E u =
     guarded_call E (get_request u) JNull
       (\<lambda>r. case resp_json r of None \<Rightarrow> Inl JSONDecodeError | Some j \<Rightarrow> Inr j)"
  by (rule ext)
     (simp add: get_attempt_def guarded_call_def
        split: prod.splits http_outcome.splits option.splits)

lemma get_binary_attempt_guarded:
  "get_binary_attempt E u =
     guarded_call E (get_request u) None (\<lambda>r. Inr (Some (resp_content r)))"
  by (rule ext)
     (simp add: get_binary_attempt_def guarded_call_def
        split: prod.splits http_outcome.splits option.splits)

lemma upload_chunk_attempt_guarded:
  "upload_chunk_attempt E file_id index chunk =
     guarded_call E (upload_chunk_request E file_id index chunk) () (\<lambda>r. Inr ())"
  by (rule ext)
     (simp add: upload_chunk_attempt_def guarded_call_def
        split: prod.splits http_outcome.splits option.splits)

lemma raise_for_status_401:
  "raise_for_status r = Some (HTTPStatusError 401) \<longleftrightarrow> status_code r = 401"
  by (auto simp: raise_for_status_def)

lemma raise_for_status_cases:
  "raise_for_status r = Some e \<Longrightarrow> e = HTTPStatusError (status_code r)"
  by (auto simp: raise_for_status_def split: if_splits)

lemma guarded_call_contract:
  assumes ok: "\<And>r e. ok r = Inl e \<Longrightarrow> \<not> is_signal e"
  shows "attempt_contract E rq (guarded_call E rq none ok)"
  unfolding attempt_contract_def
proof
  fix c
  let ?f = "guarded_call E rq none ok"
  obtain out c1 where s: "send E (rq c) c = (out, c1)"
    by (cases "send E (rq c) c")
  then have h1: "history c1 = history c @ [Request (rq c)]"
    by (auto simp: send_def Let_def)
  obtain ra c2 where re: "reauthenticate E c1 = (ra, c2)"
    by (cases "reauthenticate E c1")
  from reauthenticate_events(1) [OF re] obtain evs2 where
    evs2: "history c2 = history c1 @ evs2" "reauth_only evs2" "ra = Inr () \<longrightarrow> length evs2 = 1"
    by blast
  have nre: "\<not> is_signal e" if "ra = Inl e" for e
    using reauthenticate_events(2) [OF re that] .
  show "\<exists>evs. history (snd (?f c)) = history c @ Request (rq c) # evs \<and> reauth_only evs
        \<and> (case after_401 E (rq c) c of
             Some c2 \<Rightarrow> ?f c = (Inl (ReAuthException (HTTPStatusError 401)), c2) \<and> length evs = 1
           | None \<Rightarrow> (\<forall>e. fst (?f c) = Inl e \<longrightarrow> \<not> is_signal e))"
  proof (cases "is_401 out")
    case True
    then obtain r where out: "out = Responds r" "status_code r = 401"
      by (auto simp: is_401_def split: http_outcome.splits)
    then have rs: "raise_for_status r = Some (HTTPStatusError 401)"
      by (simp add: raise_for_status_401)
    show ?thesis
    proof (cases ra)
      case (Inl e)
      then have "?f c = (Inl e, c2)"
        using s out rs re by (simp add: guarded_call_def on_http_error_401_failed)
      moreover have "after_401 E (rq c) c = None"
        using s True re Inl by (simp add: after_401_def)
      ultimately show ?thesis
        using evs2 h1 nre Inl by auto
    next
      case (Inr u)
      then have "?f c = (Inl (ReAuthException (HTTPStatusError 401)), c2)"
        using s out rs re by (simp add: guarded_call_def on_http_error_401)
      moreover have "after_401 E (rq c) c = Some c2"
        using s True re Inr by (simp add: after_401_def)
      ultimately show ?thesis
        using evs2 h1 Inr by auto
    qed
  next
    case False
    then have a: "after_401 E (rq c) c = None"
      using s by (simp add: after_401_def)
    have "\<exists>r. ?f c = (r, c1) \<and> (\<forall>e. r = Inl e \<longrightarrow> \<not> is_signal e)"
    proof (cases out)
      case Fails
      then show ?thesis
        using s on_http_error_other [of HTTPError E none c1]
        by (auto simp: guarded_call_def)
    next
      case (Responds r)
      show ?thesis
      proof (cases "raise_for_status r")
        case None
        then show ?thesis using s Responds ok by (simp add: guarded_call_def)
      next
        case (Some error)
        then have "error = HTTPStatusError (status_code r)" by (rule raise_for_status_cases)
        moreover have "status_code r \<noteq> 401" using False Responds by (simp add: is_401_def)
        ultimately show ?thesis
          using s Responds Some on_http_error_other [of error E none c1]
          by (auto simp: guarded_call_def)
      qed
    qed
    then show ?thesis
      using a h1 by (auto simp: reauth_only_def)
  qed
qed


lemma retry_single:
  assumes "f c = (r, c1)" "\<forall>x. r \<noteq> Inl (ReAuthException x)"
  shows "retry f c = (r, c1)"
  using assms by (auto simp: retry_def split: sum.splits exn.splits)

lemma retry_second:
  assumes "f c = (Inl (ReAuthException x), c1)" "f c1 = (r, c2)" "\<forall>y. r \<noteq> Inl (ReAuthException y)"
  shows "retry f c = (r, c2)"
  using assms by (auto simp: retry_def split: sum.splits exn.splits)

lemma retry_exhausted:
  assumes "f c = (Inl (ReAuthException x), c1)" "f c1 = (Inl (ReAuthException y), c2)"
  shows "retry f c = (Inl (RetryError (ReAuthException y)), c2)"
  using assms by (simp add: retry_def)




lemma plain_result_no_signal:
  assumes "\<And>r e. ok r = Inl e \<Longrightarrow> \<not> is_signal e"
    and "plain_result ok out = Inl e"
  shows "\<not> is_signal e"
  using assms
  by (auto simp: plain_result_def split: http_outcome.splits option.splits if_splits
      dest!: raise_for_status_cases)

text \<open>One attempt, by the answer it gets.\<close>

lemma guarded_call_plain:
  assumes "send E (rq c) c = (out, c1)" "\<not> is_401 out"
  shows "guarded_call E rq none ok c = (plain_result ok out, c1)"
proof (cases out)
  case Fails
  then show ?thesis
    using assms by (simp add: guarded_call_def plain_result_def on_http_error_def
        recover_or_raise_def)
next
  case (Responds r)
  show ?thesis
  proof (cases "raise_for_status r")
    case None
    then show ?thesis using assms Responds by (simp add: guarded_call_def plain_result_def)
  next
    case (Some error)
    then have e: "error = HTTPStatusError (status_code r)" by (rule raise_for_status_cases)
    moreover have "status_code r \<noteq> 401" using assms(2) Responds by (simp add: is_401_def)
    ultimately show ?thesis
      using assms Responds Some
      by (simp add: guarded_call_def plain_result_def on_http_error_def recover_or_raise_def)
  qed
qed

lemma guarded_call_401:
  assumes "send E (rq c) c = (out, c1)" "is_401 out"
  shows "guarded_call E rq none ok c =
     (case reauthenticate E c1 of
        (Inl e, c2) \<Rightarrow> (Inl e, c2)
      | (Inr _, c2) \<Rightarrow> (Inl (ReAuthException (HTTPStatusError 401)), c2))"
proof -
  from assms(2) obtain r where out: "out = Responds r" "status_code r = 401"
    by (auto simp: is_401_def split: http_outcome.splits)
  then have "raise_for_status r = Some (HTTPStatusError 401)"
    by (simp add: raise_for_status_401)
  then show ?thesis
    using assms(1) out
    by (simp add: guarded_call_def on_http_error_def recover_or_raise_def
        split: prod.splits sum.splits)
qed





lemmas demo_defs = ok_response_def status_response_def token_reply_def to_auth_def demo_env_def
  expired_server_def demo_client_def

lemmas call_defs = get_def retry_def get_attempt_def send_def get_request_def token_header_def
  raise_for_status_def on_http_error_def recover_or_raise_def reauthenticate_def basic_auth_def
  basic_auth_request_def store_token_def token_value_def py_get_def truthy_sb_def
  auth_url_def Let_def is_reauth_def authorization_scheme_def




section \<open>POST calls\<close>

lemma recover_or_raise_http_error: "recover_or_raise E HTTPError c = (Inl HTTPError, c)"
  by (simp add: recover_or_raise_def)

lemma post_attempt_explicit:
  "post_attempt E u js c =
     (case server E (history c @ [Request (post_request u js c)]) of
        Fails \<Rightarrow> Inl HTTPError
      | Responds r \<Rightarrow> (case resp_json r of None \<Rightarrow> Inl JSONDecodeError | Some j \<Rightarrow> Inr j),
      c\<lparr>history := history c @ [Request (post_request u js c)]\<rparr>)"
  by (simp add: post_attempt_def send_def Let_def on_http_error_def recover_or_raise_http_error
      split: http_outcome.splits option.splits)

lemma post_explicit:
  "post E u js c =
     (case server E (history c @ [Request (post_request u js c)]) of
        Fails \<Rightarrow> Inl HTTPError
      | Responds r \<Rightarrow> (case resp_json r of None \<Rightarrow> Inl JSONDecodeError | Some j \<Rightarrow> Inr j),
      c\<lparr>history := history c @ [Request (post_request u js c)]\<rparr>)"
proof -
  have "\<forall>x. fst (post_attempt E u js c) \<noteq> Inl (ReAuthException x)"
    by (simp add: post_attempt_explicit split: http_outcome.splits option.splits)
  then have "post E u js c = post_attempt E u js c"
    unfolding post_def
    using retry_single [of "post_attempt E u js" c "fst (post_attempt E u js c)"
        "snd (post_attempt E u js c)"]
    by simp
  then show ?thesis by (simp only: post_attempt_explicit)
qed

text \<open>
  Claim C5 says that a 404 on any resource call, \<^verbatim>\<open>POST\<close> included, surfaces as the
  unknown-identifier failure. \<^verbatim>\<open>_get\<close>, \<^verbatim>\<open>_get_binary\<close> and \<^verbatim>\<open>_upload_chunk\<close> call
  \<^verbatim>\<open>raise_for_status\<close> and do so; \<^verbatim>\<open>_post\<close> does not call it. On a server that
  answers 404, the \<^verbatim>\<open>POST\<close> returns the body of the answer as if it were the result,
  where the \<^verbatim>\<open>GET\<close> of the same URL raises \<open>InvalidIdentifierException\<close>.
\<close>

theorem post_404_returns_body:
  "fst (post (demo_env not_found_server) [Lit ''u''] None demo_client) = Inr (JObj [])
   \<and> fst (get (demo_env not_found_server) [Lit ''u''] demo_client)
       = Inl (InvalidIdentifierException (HTTPStatusError 404))"
  by (simp add: post_explicit not_found_server_def demo_defs call_defs)

section \<open>Loading the private key\<close>

text \<open>
  Claim C7 says that every failure to load the private key raises the invalid-private-key
  failure. The \<^verbatim>\<open>except\<close> clause of \<^verbatim>\<open>_get_private_key\<close> catches \<^verbatim>\<open>IOError\<close>,
  \<^verbatim>\<open>InvalidKey\<close> and \<^verbatim>\<open>UnsupportedAlgorithm\<close>, and \<^verbatim>\<open>load_pem_private_key\<close> raises
  \<^verbatim>\<open>ValueError\<close> for malformed key material and for a wrong password: where the loader
  rejects the data so, the \<^verbatim>\<open>ValueError\<close> reaches the caller as it is.
\<close>

theorem malformed_key_raises_value_error:
  "get_private_key malformed_key_env raw_key_client = Inl ValueError"
  by (simp add: malformed_key_env_def raw_key_client_def cert_client_def get_private_key_def
      private_key_data_def
      os_path_isfile_def load_pem_private_key_def key_error_def private_key_pw_def demo_defs
      truthy_sb_def)

text \<open>
  Claim C8 says that a string-valued \<^verbatim>\<open>private_key\<close> is read from disk exactly when it
  names an existing file, whatever the other credentials are. \<^verbatim>\<open>_get_private_key\<close> tests
  \<^verbatim>\<open>os.path.isfile(self.certificate)\<close>, not \<^verbatim>\<open>self.private_key\<close>: with a certificate given
  as bytes and a private key given as the path of an existing file, the characters of the
  path are taken as the key material.
\<close>

theorem key_path_used_as_key_bytes:
  "isfile (demo_env expired_server) (Str ''/keys/key.pem'')
   \<and> private_key cert_client = Some (Str ''/keys/key.pem'')
   \<and> private_key_data (demo_env expired_server) cert_client = Inr (Some (encode ''/keys/key.pem''))"
  by (simp add: cert_client_def private_key_data_def os_path_isfile_def demo_defs)

section \<open>The certificate protocol\<close>

text \<open>
  Claim C6. Where \<^verbatim>\<open>_cert_auth\<close> has the certificate and the key, it draws a nonce of
  150 bytes from \<^verbatim>\<open>os.urandom\<close>, signs the nonce itself with the key, PKCS#1 v1.5 padding
  and SHA-512, and issues one request: a \<^verbatim>\<open>POST\<close> to the authentication endpoint whose
  \<^verbatim>\<open>Authorization\<close> header is \<^verbatim>\<open>CACertificate\<close> followed by the base64 of the certificate,
  and whose JSON body has \<^verbatim>\<open>encodedData\<close>, the base64 of the nonce, and
  \<^verbatim>\<open>encodedSignedData\<close>, the base64 of the signature.
\<close>

theorem cert_auth_protocol:
  assumes "get_certificate E c = Inr (Some cert)"
    and "get_private_key E c = Inr key"
    and "sign_rsa E key (os_urandom E c 150) PKCS1v15 SHA512 = Inr signature"
  shows "length (os_urandom E c 150) = 150
    \<and> history (snd (cert_auth E c)) = history c @
        [Request \<lparr>req_method = POST, req_url = [Lit ''https://auth.anaplan.com/token/authenticate''],
           req_headers =
             [(''Authorization'', [Lit ''CACertificate '', Fmt (JStr (b64encode E cert))]),
              (''Content-Type'', [Lit ''application/json''])],
           req_body =
             JsonBody (JObj [(''encodedData'', JStr (b64encode E (os_urandom E c 150))),
                             (''encodedSignedData'', JStr (b64encode E signature))]),
           req_timeout = timeout c\<rparr>]"
proof -
  let ?rq = "cert_auth_request E c cert (os_urandom E c 150) signature"
  obtain r c' where st: "store_token (server E (history c @ [Request ?rq]))
      (c\<lparr>history := history c @ [Request ?rq]\<rparr>) = (r, c')"
    by (cases "store_token (server E (history c @ [Request ?rq]))
      (c\<lparr>history := history c @ [Request ?rq]\<rparr>)")
  have "cert_auth E c = (r, c')"
    using assms st by (simp add: cert_auth_def send_def Let_def)
  moreover have "history c' = history c @ [Request ?rq]"
    using store_token_history [OF st] by simp
  ultimately have "history (snd (cert_auth E c)) = history c @ [Request ?rq]"
    by simp
  then show ?thesis
    by (simp add: cert_auth_request_def Let_def os_urandom_def auth_url_def)
qed

theorem cert_auth_protocol_witness:
  "get_certificate (demo_env expired_server) cert_client = Inr (Some [1, 2])
   \<and> get_private_key (demo_env expired_server) cert_client
        = Inr (RSAPrivateKey (encode ''/keys/key.pem'') None)
   \<and> length (os_urandom (demo_env expired_server) cert_client 150) = 150
   \<and> length (history (snd (cert_auth (demo_env expired_server) cert_client))) = 1"
proof -
  let ?E = "demo_env expired_server"
  have 1: "get_certificate ?E cert_client = Inr (Some [1, 2])"
    by (simp add: get_certificate_def cert_client_def)
  have 2: "get_private_key ?E cert_client = Inr (RSAPrivateKey (encode ''/keys/key.pem'') None)"
    by (simp add: cert_client_def get_private_key_def private_key_data_def
      os_path_isfile_def load_pem_private_key_def key_error_def private_key_pw_def demo_defs
      truthy_sb_def)
  have 3: "sign_rsa ?E (RSAPrivateKey (encode ''/keys/key.pem'') None)
             (os_urandom ?E cert_client 150) PKCS1v15 SHA512
           = Inr (os_urandom ?E cert_client 150)"
    by (simp add: demo_env_def)
  have 4: "history cert_client = []"
    by (simp add: cert_client_def demo_client_def)
  show ?thesis
    using 1 2 4 cert_auth_protocol [OF 1 2 3] by simp
qed

section \<open>The constructor\<close>

lemma retry_state_cases:
  "snd (retry f c) = snd (f c) \<or> snd (retry f c) = snd (f (snd (f c)))"
  by (cases "f c"; cases "f (snd (f c))")
     (auto simp: retry_def split: sum.splits exn.splits)

lemma retry_first_event:
  assumes "attempt_contract E rq f"
  shows "\<exists>evs. history (snd (retry f c)) = history c @ Request (rq c) # evs"
proof -
  have step: "\<exists>evs. history (snd (f c)) = history c @ Request (rq c) # evs" for c
    using assms unfolding attempt_contract_def by blast
  from step [of c] obtain evs1 where 1: "history (snd (f c)) = history c @ Request (rq c) # evs1"
    by blast
  from step [of "snd (f c)"] obtain evs2 where
    2: "history (snd (f (snd (f c)))) = history (snd (f c)) @ Request (rq (snd (f c))) # evs2"
    by blast
  show ?thesis
    using retry_state_cases [of f c] 1 2 by auto
qed

lemma get_attempt_contract: "attempt_contract E (get_request u) (get_attempt E u)"
  unfolding get_attempt_guarded
  by (rule guarded_call_contract) (auto split: option.splits)

lemma get_binary_attempt_contract: "attempt_contract E (get_request u) (get_binary_attempt E u)"
  unfolding get_binary_attempt_guarded
  by (rule guarded_call_contract) auto

lemma upload_chunk_attempt_contract:
  "attempt_contract E (upload_chunk_request E f i ch) (upload_chunk_attempt E f i ch)"
  unfolding upload_chunk_attempt_guarded
  by (rule guarded_call_contract) auto

lemma init_state:
  assumes "init ws m ue pw cert pk pkp t d sz = Inr c"
  shows "auth_token c = JStr []" "history c = []"
  using assms by (auto simp: init_def split: if_splits)

text \<open>
  Claim C10. A client that \<^verbatim>\<open>__init__\<close> has built has the empty string as its token
  and has issued no request: the authentication coroutine was created and not awaited.
  The first authenticated call it makes, whichever it is, goes out with
  \<^verbatim>\<open>Authorization: AnaplanAuthToken\<close> and the empty token. (That a 401 on it leads to a
  reauthentication and a retry with the token obtained is part of C1.)
\<close>

theorem init_leaves_token_empty:
  assumes "init ws m ue pw cert pk pkp t d sz = Inr c"
  shows "auth_token c = JStr [] \<and> history c = []
    \<and> (\<exists>evs. history (snd (get E u c)) = Request (get_request u c) # evs)
    \<and> (\<exists>evs. history (snd (get_binary E u c)) = Request (get_request u c) # evs)
    \<and> (\<exists>evs. history (snd (post E u js c)) = Request (post_request u js c) # evs)
    \<and> (\<exists>evs. history (snd (upload_chunk E f i ch c))
                = Request (upload_chunk_request E f i ch c) # evs)
    \<and> hd (req_headers (get_request u c)) = (''Authorization'', [Lit ''AnaplanAuthToken '', Fmt (JStr [])])
    \<and> hd (req_headers (post_request u js c)) = (''Authorization'', [Lit ''AnaplanAuthToken '', Fmt (JStr [])])
    \<and> hd (req_headers (upload_chunk_request E f i ch c))
         = (''Authorization'', [Lit ''AnaplanAuthToken '', Fmt (JStr [])])"
proof -
  note st = init_state [OF assms]
  have g: "\<exists>evs. history (snd (get E u c)) = Request (get_request u c) # evs"
    using retry_first_event [OF get_attempt_contract, of E u c] st(2)
    by (simp add: get_def)
  have b: "\<exists>evs. history (snd (get_binary E u c)) = Request (get_request u c) # evs"
    using retry_first_event [OF get_binary_attempt_contract, of E u c] st(2)
    by (simp add: get_binary_def)
  have p: "\<exists>evs. history (snd (post E u js c)) = Request (post_request u js c) # evs"
    using st(2) by (simp add: post_explicit)
  have k: "\<exists>evs. history (snd (upload_chunk E f i ch c))
                = Request (upload_chunk_request E f i ch c) # evs"
    using retry_first_event [OF upload_chunk_attempt_contract, of E f i ch c] st(2)
    by (simp add: upload_chunk_def)
  show ?thesis
    using st g b p k
    by (simp add: get_request_def post_request_def upload_chunk_request_def token_header_def)
qed

theorem init_leaves_token_empty_witness:
  "init (Some ''ws'') (Some ''m'') (Some ''u@x'') (Some ''pw'') None None None 30 1 3
     = Inr demo_client
   \<and> auth_token demo_client = JStr [] \<and> history demo_client = []
   \<and> (\<exists>evs. history (snd (get (demo_env expired_server) [Lit ''u''] demo_client))
        = Request (get_request [Lit ''u''] demo_client) # evs)"
proof -
  have i: "init (Some ''ws'') (Some ''m'') (Some ''u@x'') (Some ''pw'') None None None 30 1 3
     = Inr demo_client"
    by (simp add: init_def demo_client_def truthy_str_def)
  show ?thesis
    using i init_leaves_token_empty [OF i, of "demo_env expired_server" "[Lit ''u'']"]
    by blast
qed


section \<open>Running an action\<close>

lemmas run_defs = run_action_def invoke_action_def get_task_status_def task_url_def model_url_def
  post_def post_attempt_def post_request_def not_complete_def py_in_def time_sleep_def
  check_task_def truthy_def sleeps_def invoke_reply_def task_reply_def task_server_def
  List.map_filter_def final_sleeps_def fmt_opt_def base_url_def

text \<open>
  Claim C9 says that the delay between two polls is a suspension point and that
  \<^verbatim>\<open>run_action\<close> does not sleep synchronously. The loop calls \<^verbatim>\<open>time.sleep\<close>, the
  blocking sleep of the standard library, not an awaited one: in a run whose first poll
  finds the task in progress, the events of the coroutine include that call, of length
  \<^verbatim>\<open>status_poll_delay\<close>, between the two polls.
\<close>

theorem run_action_sleeps_blocking:
  "map_option fst (run_action (demo_env (task_server task_done)) 112 demo_client) = Some (Inr ())
   \<and> final_sleeps (run_action (demo_env (task_server task_done)) 112 demo_client) = Some [1]"
  by (simp add: run_defs task_done_def poll_loop.simps demo_defs call_defs)

text \<open>
  A status whose state contains the marker without being \<^verbatim>\<open>COMPLETE\<close> is outside the
  data model of a task. On such a status the loop ends and \<^verbatim>\<open>run_action\<close> returns
  normally, whatever the \<^verbatim>\<open>successful\<close> flag says.
\<close>

lemma run_action_outside_model:
  "map_option fst (run_action (demo_env (task_server task_odd)) 112 demo_client) = Some (Inr ())
   \<and> py_get task_odd ''taskState'' = Inr (JStr ''COMPLETE_WITH_ERRORS'')
   \<and> py_in ''COMPLETE'' (JStr ''COMPLETE_WITH_ERRORS'') = Inr True
   \<and> py_get (JObj [(''successful'', JBool False)]) ''successful'' = Inr (JBool False)"
  by (simp add: run_defs task_odd_def poll_loop.simps demo_defs call_defs)
























lemma poll_request_history [simp]:
  "poll_request E (c\<lparr>history := h\<rparr>) action_id task_id = poll_request E c action_id task_id"
  by (simp add: poll_request_def get_request_def task_url_def model_url_def token_header_def)













section \<open>The order of an upload\<close>


lemma puts_Cons: "puts (ev # evs) = (case put_of ev of None \<Rightarrow> puts evs | Some p \<Rightarrow> p # puts evs)"
  by (simp add: puts_def List.map_filter_def split: option.splits)

lemma put_of_not_put: "\<not> is_put ev \<Longrightarrow> put_of ev = None"
  by (auto simp: is_put_def put_of_def split: event.splits)

lemma puts_reauth_only: "reauth_only evs \<Longrightarrow> puts evs = []"
  by (induction evs) (auto simp: reauth_only_def puts_Cons put_of_not_put puts_def List.map_filter_def)


lemma retry_events:
  assumes "attempt_contract E rq f"
  shows "\<exists>evs1. reauth_only evs1
           \<and> (history (snd (retry f c)) = history c @ Request (rq c) # evs1
                \<or> (\<exists>c2 evs2. reauth_only evs2
                      \<and> history (snd (retry f c))
                          = history c @ Request (rq c) # evs1 @ Request (rq c2) # evs2))"
proof -
  have step: "\<exists>evs. history (snd (f c)) = history c @ Request (rq c) # evs \<and> reauth_only evs" for c
    using assms unfolding attempt_contract_def by blast
  from step [of c] obtain evs1 where
    1: "history (snd (f c)) = history c @ Request (rq c) # evs1" "reauth_only evs1"
    by blast
  from step [of "snd (f c)"] obtain evs2 where
    2: "history (snd (f (snd (f c)))) = history (snd (f c)) @ Request (rq (snd (f c))) # evs2"
       "reauth_only evs2"
    by blast
  from retry_state_cases [of f c] show ?thesis
  proof
    assume "snd (retry f c) = snd (f c)"
    then show ?thesis using 1 by auto
  next
    assume "snd (retry f c) = snd (f (snd (f c)))"
    then have "history (snd (retry f c))
        = history c @ Request (rq c) # evs1 @ Request (rq (snd (f c))) # evs2"
      using 1 2 by simp
    then show ?thesis using 1(2) 2(2) by blast
  qed
qed

lemma set_chunk_count_explicit:
  "set_chunk_count E file_id num_chunks c =
     (case post E (file_url c file_id) (Some (JObj [(''chunkCount'', JNum num_chunks)])) c of
        (Inl e, c1) \<Rightarrow> (Inl e, c1)
      | (Inr _, c1) \<Rightarrow> (Inr (), c1))"
  by (simp add: set_chunk_count_def)


text \<open>The steps of a task.\<close>

lemma reauthenticate_split:
  "reauthenticate E c =
     (case reauth_request E c of
        Inl e \<Rightarrow> (Inl e, c)
      | Inr rq \<Rightarrow> (case send E rq c of (out, c1) \<Rightarrow> store_token out c1))"
  by (simp add: reauthenticate_def reauth_request_def cert_auth_def basic_auth_def Let_def
      split: sum.splits option.splits)



lemma chunk_step_Ready:
  "chunk_step E file_id index chunk (Ready a) c =
     (AwaitingPut a (server E (history c @ [Request (upload_chunk_request E file_id index chunk c)])),
      c\<lparr>history := history c @ [Request (upload_chunk_request E file_id index chunk c)]\<rparr>)"
  by (simp add: chunk_step_def send_def Let_def)

lemma chunk_step_AwaitingAuth:
  "chunk_step E file_id index chunk (AwaitingAuth a out) c =
     (case store_token out c of
        (Inl e, c1) \<Rightarrow> (Finished (Inl e), c1)
      | (Inr _, c1) \<Rightarrow> (next_attempt a, c1))"
  by (simp add: chunk_step_def)

lemma chunk_step_Finished: "chunk_step E file_id index chunk (Finished r) c = (Finished r, c)"
  by (simp add: chunk_step_def)

lemma chunk_step_AwaitingPut_plain:
  assumes "\<not> is_401 out"
  shows "chunk_step E file_id index chunk (AwaitingPut a out) c
         = (Finished (plain_result (\<lambda>r. Inr ()) out), c)"
proof (cases out)
  case Fails
  then show ?thesis by (simp add: chunk_step_def plain_result_def)
next
  case (Responds r)
  then have "status_code r \<noteq> 401" using assms by (simp add: is_401_def)
  then show ?thesis
    using Responds
    by (cases "raise_for_status r") (simp_all add: chunk_step_def plain_result_def)
qed

lemma chunk_step_AwaitingPut_401:
  assumes "is_401 out"
  shows "chunk_step E file_id index chunk (AwaitingPut a out) c
         = (case reauth_request E c of
              Inl e \<Rightarrow> (Finished (Inl e), c)
            | Inr rq \<Rightarrow>
                (AwaitingAuth a (server E (history c @ [Request rq])),
                 c\<lparr>history := history c @ [Request rq]\<rparr>))"
proof -
  from assms obtain r where out: "out = Responds r" "status_code r = 401"
    by (auto simp: is_401_def split: http_outcome.splits)
  then have "raise_for_status r = Some (HTTPStatusError 401)"
    by (simp add: raise_for_status_401)
  then show ?thesis
    using out by (simp add: chunk_step_def send_def Let_def split: sum.splits)
qed


















lemma drive_Finished: "drive n E file_id index chunk (Finished r) c = (Finished r, c)"
  by (induction n) (simp_all add: chunk_step_Finished)

lemma drive_add:
  "drive (m + n) E file_id index chunk t c =
     (case drive m E file_id index chunk t c of (t', c') \<Rightarrow> drive n E file_id index chunk t' c')"
  by (induction m arbitrary: t c) (simp_all split: prod.splits)

lemma upload_chunk_attempt_cases:
  assumes "upload_chunk_attempt E file_id index chunk c = (r, c')"
  shows "r = signal_401 \<or> (\<forall>x. r \<noteq> Inl (ReAuthException x))"
proof -
  let ?rq = "upload_chunk_request E file_id index chunk"
  obtain out c1 where s: "send E (?rq c) c = (out, c1)" by (cases "send E (?rq c) c")
  show ?thesis
  proof (cases "is_401 out")
    case False
    have "guarded_call E ?rq () (\<lambda>r. Inr ()) c = (plain_result (\<lambda>r. Inr ()) out, c1)"
      using s False by (rule guarded_call_plain)
    then have r: "r = plain_result (\<lambda>r. Inr ()) out"
      using assms by (simp add: upload_chunk_attempt_guarded)
    have "\<not> is_signal e" if "r = Inl e" for e
      using that r plain_result_no_signal [of "\<lambda>r. Inr ()" out e] by simp
    then show ?thesis by fastforce
  next
    case True
    obtain ra c2 where re: "reauthenticate E c1 = (ra, c2)" by (cases "reauthenticate E c1")
    have g: "guarded_call E ?rq () (\<lambda>r. Inr ()) c =
       (case reauthenticate E c1 of
          (Inl e, c2) \<Rightarrow> (Inl e, c2)
        | (Inr _, c2) \<Rightarrow> (Inl (ReAuthException (HTTPStatusError 401)), c2))"
      using s True by (rule guarded_call_401)
    show ?thesis
    proof (cases ra)
      case (Inl e)
      then have "r = Inl e" using g re assms by (simp add: upload_chunk_attempt_guarded)
      moreover have "\<not> is_signal e" using reauthenticate_events(2) [OF re] Inl by simp
      ultimately show ?thesis by fastforce
    next
      case (Inr u)
      then show ?thesis
        using g re assms by (simp add: upload_chunk_attempt_guarded signal_401_def)
    qed
  qed
qed

text \<open>One attempt of the task is one run of the body of \<^verbatim>\<open>_upload_chunk\<close>.\<close>

lemma drive_attempt:
  assumes "upload_chunk_attempt E file_id index chunk c = (r, c')"
  shows "drive 3 E file_id index chunk (Ready a) c
         = (if r = signal_401 then next_attempt a else Finished r, c')"
proof -
  let ?rq = "upload_chunk_request E file_id index chunk"
  let ?h = "history c @ [Request (?rq c)]"
  let ?out = "server E ?h"
  let ?c1 = "c\<lparr>history := ?h\<rparr>"
  have s: "send E (?rq c) c = (?out, ?c1)" by (simp add: send_def Let_def)
  have three: "drive 3 E file_id index chunk (Ready a) c
      = (case chunk_step E file_id index chunk (AwaitingPut a ?out) ?c1 of
           (t, c2) \<Rightarrow> chunk_step E file_id index chunk t c2)"
    by (simp add: eval_nat_numeral chunk_step_Ready split: prod.splits)
  show ?thesis
  proof (cases "is_401 ?out")
    case False
    have "guarded_call E ?rq () (\<lambda>r. Inr ()) c = (plain_result (\<lambda>r. Inr ()) ?out, ?c1)"
      using s False by (rule guarded_call_plain)
    then have r: "r = plain_result (\<lambda>r. Inr ()) ?out" "c' = ?c1"
      using assms by (simp_all add: upload_chunk_attempt_guarded)
    have "\<not> is_signal e" if "r = Inl e" for e
      using that r plain_result_no_signal [of "\<lambda>r. Inr ()" ?out e] by simp
    then have "r \<noteq> signal_401" by (auto simp: signal_401_def)
    then show ?thesis
      unfolding three using False r
      by (simp add: chunk_step_AwaitingPut_plain chunk_step_Finished)
  next
    case True
    have g: "guarded_call E ?rq () (\<lambda>r. Inr ()) c =
       (case reauthenticate E ?c1 of
          (Inl e, c2) \<Rightarrow> (Inl e, c2)
        | (Inr _, c2) \<Rightarrow> (Inl (ReAuthException (HTTPStatusError 401)), c2))"
      using s True by (rule guarded_call_401)
    show ?thesis
    proof (cases "reauth_request E ?c1")
      case (Inl e)
      then have re: "reauthenticate E ?c1 = (Inl e, ?c1)"
        by (simp add: reauthenticate_split)
      then have r: "r = Inl e" "c' = ?c1"
        using g assms by (simp_all add: upload_chunk_attempt_guarded)
      have "\<not> is_signal e" using reauthenticate_events(2) [OF re] by simp
      then have "r \<noteq> signal_401" using r by (auto simp: signal_401_def)
      then show ?thesis
        unfolding three using True Inl r
        by (simp add: chunk_step_AwaitingPut_401 chunk_step_Finished)
    next
      case (Inr rq)
      let ?h2 = "history ?c1 @ [Request rq]"
      let ?c2 = "?c1\<lparr>history := ?h2\<rparr>"
      obtain ra c3 where st: "store_token (server E ?h2) ?c2 = (ra, c3)"
        by (cases "store_token (server E ?h2) ?c2")
      have re: "reauthenticate E ?c1 = (ra, c3)"
        using Inr st by (simp add: reauthenticate_split send_def Let_def)
      have step: "drive 3 E file_id index chunk (Ready a) c
          = (case ra of Inl e \<Rightarrow> (Finished (Inl e), c3) | Inr _ \<Rightarrow> (next_attempt a, c3))"
        unfolding three using True Inr st
        by (simp add: chunk_step_AwaitingPut_401 chunk_step_AwaitingAuth split: sum.splits)
      show ?thesis
      proof (cases ra)
        case (Inl e)
        then have r: "r = Inl e" "c' = c3"
          using g re assms by (simp_all add: upload_chunk_attempt_guarded)
        have "\<not> is_signal e" using reauthenticate_events(2) [OF re] Inl by simp
        then have "r \<noteq> signal_401" using r by (auto simp: signal_401_def)
        then show ?thesis
          unfolding step using Inl r by simp
      next
        case (Inr u)
        then have r: "r = signal_401" "c' = c3"
          using g re assms by (simp_all add: upload_chunk_attempt_guarded signal_401_def)
        then show ?thesis
          unfolding step using Inr by simp
      qed
    qed
  qed
qed

text \<open>
  A task resumed on its own until it has finished is the call \<^verbatim>\<open>_upload_chunk\<close> under its
  retry decorator: the result is the same and so is the client it leaves.
\<close>

lemma drive_upload_chunk:
  "drive 6 E file_id index chunk (Ready First) c
   = (Finished (fst (upload_chunk E file_id index chunk c)),
      snd (upload_chunk E file_id index chunk c))"
proof -
  let ?f = "upload_chunk_attempt E file_id index chunk"
  obtain r1 c1 where a1: "?f c = (r1, c1)" by (cases "?f c")
  have six: "drive 6 E file_id index chunk (Ready First) c
      = (case drive 3 E file_id index chunk (Ready First) c of
           (t, c') \<Rightarrow> drive 3 E file_id index chunk t c')"
    using drive_add [of 3 3 E file_id index chunk "Ready First" c] by simp
  from upload_chunk_attempt_cases [OF a1] show ?thesis
  proof
    assume n: "\<forall>x. r1 \<noteq> Inl (ReAuthException x)"
    then have "r1 \<noteq> signal_401" by (simp add: signal_401_def)
    then have "drive 6 E file_id index chunk (Ready First) c = (Finished r1, c1)"
      unfolding six by (simp add: drive_attempt [OF a1] drive_Finished)
    moreover have "retry ?f c = (r1, c1)" using a1 n by (rule retry_single)
    ultimately show ?thesis by (simp add: upload_chunk_def)
  next
    assume s1: "r1 = signal_401"
    obtain r2 c2 where a2: "?f c1 = (r2, c2)" by (cases "?f c1")
    have a1': "?f c = (Inl (ReAuthException (HTTPStatusError 401)), c1)"
      using a1 s1 by (simp add: signal_401_def)
    have d: "drive 6 E file_id index chunk (Ready First) c
        = (if r2 = signal_401 then next_attempt Second else Finished r2, c2)"
      unfolding six using s1
      by (simp add: drive_attempt [OF a1] drive_attempt [OF a2] next_attempt_def)
    from upload_chunk_attempt_cases [OF a2] show ?thesis
    proof
      assume n: "\<forall>x. r2 \<noteq> Inl (ReAuthException x)"
      then have "r2 \<noteq> signal_401" by (simp add: signal_401_def)
      moreover have "retry ?f c = (r2, c2)" using a1' a2 n by (rule retry_second)
      ultimately show ?thesis using d by (simp add: upload_chunk_def)
    next
      assume s2: "r2 = signal_401"
      then have "?f c1 = (Inl (ReAuthException (HTTPStatusError 401)), c2)"
        using a2 by (simp add: signal_401_def)
      with a1' have "retry ?f c = (Inl (RetryError (ReAuthException (HTTPStatusError 401))), c2)"
        by (rule retry_exhausted)
      then show ?thesis using d s2 by (simp add: upload_chunk_def next_attempt_def)
    qed
  qed
qed





end
